theory Spec2Isabelle
  imports Complex_Main "HOL-Library.Word"
begin

section \<open>Strings and values of the JavaScript runtime\<close>

text \<open>
  The chat client lives in \<^verbatim>\<open>src/app/page.tsx\<close>. Its strings are JavaScript strings:
  sequences of UTF-16 code units. A literal of the source is written \<open>js ''...''\<close>.
\<close>

type_synonym jschar = "16 word"
type_synonym jsstring = "jschar list"

definition js :: "string \<Rightarrow> jsstring" where
  "js s = map of_char s"

text \<open>
  \<^verbatim>\<open>String.prototype.trim\<close> removes the code units of the ECMAScript productions
  WhiteSpace and LineTerminator from both ends.
\<close>

definition isWhiteSpace :: "jschar \<Rightarrow> bool" where
  "isWhiteSpace c =
     (c = 0x09 \<or> c = 0x0A \<or> c = 0x0B \<or> c = 0x0C \<or> c = 0x0D \<or> c = 0x20 \<or> c = 0xA0
      \<or> c = 0x1680 \<or> (0x2000 \<le> c \<and> c \<le> 0x200A) \<or> c = 0x2028 \<or> c = 0x2029
      \<or> c = 0x202F \<or> c = 0x205F \<or> c = 0x3000 \<or> c = 0xFEFF)"

definition trim :: "jsstring \<Rightarrow> jsstring" where
  "trim s = rev (dropWhile isWhiteSpace (rev (dropWhile isWhiteSpace s)))"

text \<open>The decimal digits of a number, as a template literal \<^verbatim>\<open>${n}\<close> prints an integer.\<close>

fun showNat :: "nat \<Rightarrow> jsstring" where
  "showNat n = (if n < 10 then [of_nat (48 + n)] else showNat (n div 10) @ [of_nat (48 + n mod 10)])"

declare showNat.simps [simp del]

text \<open>
  The value \<^verbatim>\<open>response.json()\<close> resolves to is any JSON value; reading a property that
  is absent gives \<^verbatim>\<open>undefined\<close>. A JSON number is a double: a finite rational, or an
  infinity when the literal overflows.
\<close>

datatype jsnum = Fin rat | PosInf | NegInf

datatype jsval =
    JUndefined
  | JNull
  | JBool bool
  | JNum jsnum
  | JStr jsstring
  | JArr "jsval list"
  | JObj "(jsstring \<times> jsval) list"

text \<open>The property keys \<^verbatim>\<open>handleSendMessage\<close> reads from the response.\<close>

datatype key = Candidates | Length | Index0 | Content | Parts | Text

fun keyName :: "key \<Rightarrow> jsstring" where
  "keyName Candidates = js ''candidates''"
| "keyName Length = js ''length''"
| "keyName Index0 = js ''0''"
| "keyName Content = js ''content''"
| "keyName Parts = js ''parts''"
| "keyName Text = js ''text''"

text \<open>What a \<^verbatim>\<open>throw\<close> carries: an \<^verbatim>\<open>Error\<close> instance with its message, or any other value.\<close>

datatype js_exn = ErrorObj jsstring | NonError

datatype 'a outcome = Resolved 'a | Rejected js_exn

text \<open>Reading a property of \<^verbatim>\<open>null\<close> or \<^verbatim>\<open>undefined\<close> throws a TypeError.\<close>

datatype type_error = CannotRead jsval key

text \<open>
  What the engine decides and the source does not: the message of a TypeError, and the
  comparison \<^verbatim>\<open>v > 0\<close> for an operand that is a string, an array or an object (it goes through
  ToPrimitive and StringToNumber, on doubles).
\<close>

record runtime =
  typeErrorMessage :: "type_error \<Rightarrow> jsstring"
  toNumberGtZero :: "jsval \<Rightarrow> bool"

text \<open>
  \<^verbatim>\<open>v.k\<close> for the six keys above. Arrays and strings own \<^verbatim>\<open>length\<close> and their indices; an
  object owns the properties listed in \<open>JObj\<close> (a key listed twice has its first value); no
  built-in prototype defines any of the six keys.
\<close>

fun getProp :: "jsval \<Rightarrow> key \<Rightarrow> type_error + jsval" where
  "getProp JUndefined k = Inl (CannotRead JUndefined k)"
| "getProp JNull k = Inl (CannotRead JNull k)"
| "getProp (JBool b) k = Inr JUndefined"
| "getProp (JNum n) k = Inr JUndefined"
| "getProp (JStr s) k =
     Inr (case k of
            Length \<Rightarrow> JNum (Fin (of_nat (length s)))
          | Index0 \<Rightarrow> (case s of [] \<Rightarrow> JUndefined | c # _ \<Rightarrow> JStr [c])
          | _ \<Rightarrow> JUndefined)"
| "getProp (JArr xs) k =
     Inr (case k of
            Length \<Rightarrow> JNum (Fin (of_nat (length xs)))
          | Index0 \<Rightarrow> (case xs of [] \<Rightarrow> JUndefined | x # _ \<Rightarrow> x)
          | _ \<Rightarrow> JUndefined)"
| "getProp (JObj kvs) k =
     Inr (case map_of kvs (keyName k) of None \<Rightarrow> JUndefined | Some v \<Rightarrow> v)"

text \<open>ToBoolean.\<close>

fun truthy :: "jsval \<Rightarrow> bool" where
  "truthy JUndefined = False"
| "truthy JNull = False"
| "truthy (JBool b) = b"
| "truthy (JNum n) = (n \<noteq> Fin 0)"
| "truthy (JStr s) = (s \<noteq> [])"
| "truthy (JArr xs) = True"
| "truthy (JObj kvs) = True"

text \<open>\<^verbatim>\<open>v > 0\<close>: \<^verbatim>\<open>undefined\<close> converts to NaN, \<^verbatim>\<open>null\<close> to 0, \<^verbatim>\<open>true\<close> to 1.\<close>

fun gtZero :: "runtime \<Rightarrow> jsval \<Rightarrow> bool" where
  "gtZero rt JUndefined = False"
| "gtZero rt JNull = False"
| "gtZero rt (JBool b) = b"
| "gtZero rt (JNum (Fin x)) = (0 < x)"
| "gtZero rt (JNum PosInf) = True"
| "gtZero rt (JNum NegInf) = False"
| "gtZero rt v = toNumberGtZero rt v"

section \<open>Data model\<close>

type_synonym timestamp = nat

datatype role = User | Model

text \<open>
  \<^verbatim>\<open>interface Message\<close> and \<^verbatim>\<open>interface Chat\<close>. The text of a message is whatever value was
  written to the store: the source writes \<^verbatim>\<open>parts[0].text\<close> of the response unchecked.
\<close>

record message =
  msg_id :: jsstring
  msg_text :: jsval
  msg_role :: role
  msg_timestamp :: timestamp

record chat =
  chat_id :: jsstring
  title :: jsstring
  createdAt :: timestamp

record firebase_user =
  uid :: jsstring
  isAnonymous :: bool

text \<open>The fields handed to \<^verbatim>\<open>addDoc\<close>: a new chat, or a message without its id.\<close>

datatype doc_data =
    ChatData jsstring timestamp
  | MessageData jsval role timestamp

type_synonym document = "jsstring \<times> doc_data"

text \<open>The body of the completion request: \<^verbatim>\<open>{ contents: [{role, parts: [{text}]}, ...] }\<close>.\<close>

record part =
  p_text :: jsval

record content =
  c_role :: role
  parts :: "part list"

record payload =
  contents :: "content list"

record response =
  status :: nat

text \<open>\<^verbatim>\<open>response.ok\<close>, as the Fetch standard defines it.\<close>

definition ok :: "response \<Rightarrow> bool" where
  "ok r = (200 \<le> status r \<and> status r \<le> 299)"

text \<open>
  The state of \<^verbatim>\<open>ChatApp\<close> (its seven \<^verbatim>\<open>useState\<close> cells), the remote store (each collection
  path with its documents, in commit order) and the collection paths that have a snapshot
  listener attached.
\<close>

record app_state =
  user :: "firebase_user option"
  chats :: "chat list"
  activeChatId :: "jsstring option"
  messages :: "message list"
  input :: jsstring
  isLoading :: bool
  isAuthReady :: bool
  db :: "jsstring \<Rightarrow> document list"
  listeners :: "jsstring list"

section \<open>Effects\<close>

text \<open>
  A handler is modelled by the trace of what it does, in program order: the state setters
  it calls and the requests it issues, each request with the outcome the environment gives
  it. A handler reads the state of the render that created it, taken to be the latest one;
  its setters and the store act on the current state. \<open>run\<close> applies a trace with nothing
  in between; what another handler sees while this one is suspended is the state after a
  prefix of the trace.
\<close>

datatype action =
    SetChats "chat list"
  | SetActiveChatId "jsstring option"
  | SetMessages "message list"
  | SetInput jsstring
  | SetIsLoading bool
  | AddDoc jsstring doc_data "jsstring outcome"
  | DeleteDoc jsstring "unit outcome"
  | Fetch jsstring payload "response outcome"
  | ConsoleError
  | Subscribe jsstring
  | Unsubscribe jsstring

fun apply_action :: "action \<Rightarrow> app_state \<Rightarrow> app_state" where
  "apply_action (SetChats cs) s = s\<lparr>chats := cs\<rparr>"
| "apply_action (SetActiveChatId a) s = s\<lparr>activeChatId := a\<rparr>"
| "apply_action (SetMessages ms) s = s\<lparr>messages := ms\<rparr>"
| "apply_action (SetInput t) s = s\<lparr>input := t\<rparr>"
| "apply_action (SetIsLoading b) s = s\<lparr>isLoading := b\<rparr>"
| "apply_action (AddDoc p d (Resolved i)) s = s\<lparr>db := (db s)(p := db s p @ [(i, d)])\<rparr>"
| "apply_action (AddDoc p d (Rejected e)) s = s"
| "apply_action (DeleteDoc dp (Resolved u)) s =
     s\<lparr>db := (\<lambda>c. filter (\<lambda>d. c @ js ''/'' @ fst d \<noteq> dp) (db s c))\<rparr>"
| "apply_action (DeleteDoc dp (Rejected e)) s = s"
| "apply_action (Fetch url body r) s = s"
| "apply_action ConsoleError s = s"
| "apply_action (Subscribe p) s = s\<lparr>listeners := p # listeners s\<rparr>"
| "apply_action (Unsubscribe p) s = s\<lparr>listeners := remove1 p (listeners s)\<rparr>"

definition run :: "action list \<Rightarrow> app_state \<Rightarrow> app_state" where
  "run acts s = fold apply_action acts s"

fun isStoreWrite :: "action \<Rightarrow> bool" where
  "isStoreWrite (AddDoc p d r) = True"
| "isStoreWrite (DeleteDoc dp r) = True"
| "isStoreWrite a = False"

fun isFetch :: "action \<Rightarrow> bool" where
  "isFetch (Fetch url body r) = True"
| "isFetch a = False"

fun isSetInput :: "action \<Rightarrow> bool" where
  "isSetInput (SetInput t) = True"
| "isSetInput a = False"

text \<open>\<^verbatim>\<open>!activeChatId\<close>: \<^verbatim>\<open>null\<close> and the empty string are falsy.\<close>

definition noChat :: "jsstring option \<Rightarrow> bool" where
  "noChat a = (case a of None \<Rightarrow> True | Some i \<Rightarrow> i = [])"

definition chatsCollectionPath :: "jsstring \<Rightarrow> firebase_user \<Rightarrow> jsstring" where
  "chatsCollectionPath appId u = js ''/artifacts/'' @ appId @ js ''/users/'' @ uid u @ js ''/chats''"

definition messagesCollectionPath :: "jsstring \<Rightarrow> firebase_user \<Rightarrow> jsstring \<Rightarrow> jsstring" where
  "messagesCollectionPath appId u c =
     js ''/artifacts/'' @ appId @ js ''/users/'' @ uid u @ js ''/chats/'' @ c @ js ''/messages''"

section \<open>Thread store sync\<close>

text \<open>
  \<^verbatim>\<open>handleNewChat\<close> (source lines 127 to 143). The environment supplies the reading of
  \<^verbatim>\<open>Timestamp.now()\<close> and the outcome of \<^verbatim>\<open>addDoc\<close>: the id of the new document, or a rejection.
\<close>

record newchat_env =
  nc_now :: timestamp
  nc_write :: "jsstring outcome"

definition handleNewChat :: "jsstring \<Rightarrow> newchat_env \<Rightarrow> app_state \<Rightarrow> action list" where
  "handleNewChat appId env s =
     (case user s of
        None \<Rightarrow> []
      | Some u \<Rightarrow>
          [SetIsLoading True,
           AddDoc (chatsCollectionPath appId u) (ChatData (js ''New Chat'') (nc_now env)) (nc_write env)]
          @ (case nc_write env of
               Resolved i \<Rightarrow> [SetActiveChatId (Some i)]
             | Rejected e \<Rightarrow> [ConsoleError])
          @ [SetIsLoading False])"

text \<open>
  The chats effect (lines 147 to 169) subscribes only with a user and a ready session; its
  snapshot callback replaces the cache, selects the first chat when none is selected, and
  calls \<^verbatim>\<open>handleNewChat\<close> on an empty snapshot.
\<close>

definition chatsSubscribed :: "app_state \<Rightarrow> bool" where
  "chatsSubscribed s = (user s \<noteq> None \<and> isAuthReady s)"

definition onChatsSnapshot :: "jsstring \<Rightarrow> newchat_env \<Rightarrow> app_state \<Rightarrow> chat list \<Rightarrow> action list" where
  "onChatsSnapshot appId env s fetchedChats =
     SetChats fetchedChats #
     (case fetchedChats of
        c # cs \<Rightarrow> (if noChat (activeChatId s) then [SetActiveChatId (Some (chat_id c))] else [])
      | [] \<Rightarrow> handleNewChat appId env s)"

text \<open>
  What the store pushes to a listener: the documents of the collection that have the
  ordering field, ordered by it (\<^verbatim>\<open>orderBy("createdAt", "desc")\<close> for chats,
  \<^verbatim>\<open>orderBy("timestamp", "asc")\<close> for messages), each mapped to \<^verbatim>\<open>{id: doc.id, ...doc.data()}\<close>.
\<close>

fun toChat :: "document \<Rightarrow> chat option" where
  "toChat (i, ChatData t c) = Some \<lparr>chat_id = i, title = t, createdAt = c\<rparr>"
| "toChat (i, MessageData t r ts) = None"

fun toMessage :: "document \<Rightarrow> message option" where
  "toMessage (i, MessageData t r ts) = Some \<lparr>msg_id = i, msg_text = t, msg_role = r, msg_timestamp = ts\<rparr>"
| "toMessage (i, ChatData t c) = None"

definition chatsSnapshot :: "(jsstring \<Rightarrow> document list) \<Rightarrow> jsstring \<Rightarrow> chat list" where
  "chatsSnapshot store p = rev (sort_key createdAt (List.map_filter toChat (store p)))"

definition messagesSnapshot :: "(jsstring \<Rightarrow> document list) \<Rightarrow> jsstring \<Rightarrow> message list" where
  "messagesSnapshot store p = sort_key msg_timestamp (List.map_filter toMessage (store p))"

text \<open>\<^verbatim>\<open>handleDeleteChat\<close> (lines 194 to 209); the environment supplies the outcome of \<^verbatim>\<open>deleteDoc\<close>.\<close>

definition handleDeleteChat :: "jsstring \<Rightarrow> unit outcome \<Rightarrow> jsstring \<Rightarrow> app_state \<Rightarrow> action list" where
  "handleDeleteChat appId del chatId s =
     (case user s of
        None \<Rightarrow> []
      | Some u \<Rightarrow>
          DeleteDoc (chatsCollectionPath appId u @ js ''/'' @ chatId) del #
          (case del of
             Resolved x \<Rightarrow>
               (if activeChatId s = Some chatId
                then (let remainingChats = filter (\<lambda>c. chat_id c \<noteq> chatId) (chats s)
                      in [SetActiveChatId (case remainingChats of [] \<Rightarrow> None | c # cs \<Rightarrow> Some (chat_id c))])
                else [])
           | Rejected e \<Rightarrow> [ConsoleError]))"

section \<open>Message store sync\<close>

text \<open>
  The messages effect (lines 172 to 190): its body, and the cleanup it returns. Without a
  selected chat or a user it clears the cache and returns no cleanup; otherwise it attaches
  a listener and returns the function that detaches it.
\<close>

definition messagesEffect :: "jsstring \<Rightarrow> app_state \<Rightarrow> action list \<times> action list" where
  "messagesEffect appId s =
     (case activeChatId s of
        None \<Rightarrow> ([SetMessages []], [])
      | Some c \<Rightarrow>
          (case user s of
             None \<Rightarrow> ([SetMessages []], [])
           | Some u \<Rightarrow>
               if c = [] then ([SetMessages []], [])
               else ([Subscribe (messagesCollectionPath appId u c)],
                     [Unsubscribe (messagesCollectionPath appId u c)])))"

text \<open>
  \<^verbatim>\<open>useEffect\<close> with a dependency that changed: React runs the cleanup the previous run
  returned, then the body; the cleanup the body returns is kept for the next change.
\<close>

definition useEffectRerun :: "action list \<Rightarrow> action list \<times> action list \<Rightarrow> action list \<times> action list" where
  "useEffectRerun cleanup effect = (cleanup @ fst effect, snd effect)"

text \<open>A push of the store reaches the callback only while the listener is attached.\<close>

definition onMessagesSnapshot :: "jsstring \<Rightarrow> message list \<Rightarrow> app_state \<Rightarrow> action list" where
  "onMessagesSnapshot p fetchedMessages s =
     (if p \<in> set (listeners s) then [SetMessages fetchedMessages] else [])"

section \<open>Send pipeline\<close>

text \<open>
  The guard and the assignment of \<^verbatim>\<open>modelResponse\<close> (lines 252 to 257). The conjuncts are
  evaluated left to right and stop at the first falsy one; a property read of \<^verbatim>\<open>null\<close> or
  \<^verbatim>\<open>undefined\<close> throws.
\<close>

definition fallbackText :: jsstring where
  "fallbackText = js ''Sorry, I couldn't generate a response.''"

definition extractModelResponse :: "runtime \<Rightarrow> jsval \<Rightarrow> type_error + jsval" where
  "extractModelResponse rt result =
     (case getProp result Candidates of Inl e \<Rightarrow> Inl e | Inr candidates \<Rightarrow>
      if \<not> truthy candidates then Inr (JStr fallbackText) else
      case getProp candidates Length of Inl e \<Rightarrow> Inl e | Inr n \<Rightarrow>
      if \<not> gtZero rt n then Inr (JStr fallbackText) else
      case getProp candidates Index0 of Inl e \<Rightarrow> Inl e | Inr c0 \<Rightarrow>
      case getProp c0 Content of Inl e \<Rightarrow> Inl e | Inr cont \<Rightarrow>
      if \<not> truthy cont then Inr (JStr fallbackText) else
      case getProp cont Parts of Inl e \<Rightarrow> Inl e | Inr ps \<Rightarrow>
      if \<not> truthy ps then Inr (JStr fallbackText) else
      case getProp ps Length of Inl e \<Rightarrow> Inl e | Inr m \<Rightarrow>
      if \<not> gtZero rt m then Inr (JStr fallbackText) else
      case getProp ps Index0 of Inl e \<Rightarrow> Inl e | Inr p0 \<Rightarrow>
      getProp p0 Text)"

text \<open>
  What the environment gives one run of \<^verbatim>\<open>handleSendMessage\<close>: the three readings of
  \<^verbatim>\<open>Timestamp.now()\<close>, and the outcome of each awaited call.
\<close>

record send_env =
  now_user :: timestamp
  user_write :: "jsstring outcome"
  fetch_result :: "response outcome"
  json_result :: "jsval outcome"
  now_model :: timestamp
  model_write :: "jsstring outcome"
  now_error :: timestamp
  error_write :: "jsstring outcome"

definition apiKey :: jsstring where
  "apiKey = []"

definition apiUrl :: jsstring where
  "apiUrl =
     js ''https://generativelanguage.googleapis.com/v1beta/models/gemini-2.0-flash:generateContent?key=''
     @ apiKey"

definition chatHistory :: "message list \<Rightarrow> jsstring \<Rightarrow> content list" where
  "chatHistory ms userInput =
     map (\<lambda>m. \<lparr>c_role = msg_role m, parts = [\<lparr>p_text = msg_text m\<rparr>]\<rparr>) ms
     @ [\<lparr>c_role = User, parts = [\<lparr>p_text = JStr userInput\<rparr>]\<rparr>]"

text \<open>
  The three message objects of \<^verbatim>\<open>handleSendMessage\<close> (lines 221 to 225, 260 to 264 and 269 to
  273), each with its own reading of the clock.
\<close>

fun errorText :: "js_exn \<Rightarrow> jsstring" where
  "errorText (ErrorObj msg) = js ''Error: '' @ msg"
| "errorText NonError = js ''Error: '' @ js ''An unknown error occurred.''"

definition userMessage :: "send_env \<Rightarrow> jsstring \<Rightarrow> doc_data" where
  "userMessage env userInput = MessageData (JStr userInput) User (now_user env)"

definition modelMessage :: "send_env \<Rightarrow> jsval \<Rightarrow> doc_data" where
  "modelMessage env modelResponse = MessageData modelResponse Model (now_model env)"

definition errorMessage :: "send_env \<Rightarrow> js_exn \<Rightarrow> doc_data" where
  "errorMessage env error = MessageData (JStr (errorText error)) Model (now_error env)"

text \<open>
  The \<^verbatim>\<open>try\<close> block (lines 229 to 266): its actions, and the exception that leaves it, if any.
\<close>

definition tryBlock ::
  "runtime \<Rightarrow> send_env \<Rightarrow> jsstring \<Rightarrow> message list \<Rightarrow> jsstring \<Rightarrow> action list \<times> js_exn option" where
  "tryBlock rt env path ms userInput =
     (let request = Fetch apiUrl \<lparr>contents = chatHistory ms userInput\<rparr> (fetch_result env) in
      case fetch_result env of
        Rejected e \<Rightarrow> ([request], Some e)
      | Resolved r \<Rightarrow>
          if \<not> ok r
          then ([request], Some (ErrorObj (js ''API call failed with status: '' @ showNat (status r))))
          else (case json_result env of
                  Rejected e \<Rightarrow> ([request], Some e)
                | Resolved result \<Rightarrow>
                    (case extractModelResponse rt result of
                       Inl te \<Rightarrow> ([request], Some (ErrorObj (typeErrorMessage rt te)))
                     | Inr modelResponse \<Rightarrow>
                         (let write = AddDoc path (modelMessage env modelResponse) (model_write env)
                          in case model_write env of
                               Rejected e \<Rightarrow> ([request, write], Some e)
                             | Resolved i \<Rightarrow> ([request, write], None)))))"

text \<open>
  The part of \<^verbatim>\<open>handleSendMessage\<close> after its guard (lines 214 to 277), for the user \<open>u\<close>
  and the selected chat \<open>c\<close>: the trace, and how the promise settles. The first \<^verbatim>\<open>addDoc\<close>
  is awaited before the \<^verbatim>\<open>try\<close>: its rejection leaves the function at once. A rejection
  inside \<^verbatim>\<open>catch\<close> passes through \<^verbatim>\<open>finally\<close>.
\<close>

definition sendPipeline ::
  "runtime \<Rightarrow> jsstring \<Rightarrow> send_env \<Rightarrow> firebase_user \<Rightarrow> jsstring \<Rightarrow> app_state
     \<Rightarrow> action list \<times> unit outcome" where
  "sendPipeline rt appId env u c s =
     (let userInput = trim (input s);
          path = messagesCollectionPath appId u c;
          before = [SetInput [], SetIsLoading True,
                    AddDoc path (userMessage env userInput) (user_write env)]
      in case user_write env of
           Rejected e \<Rightarrow> (before, Rejected e)
         | Resolved i \<Rightarrow>
             (case tryBlock rt env path (messages s) userInput of
                (acts, None) \<Rightarrow> (before @ acts @ [SetIsLoading False], Resolved ())
              | (acts, Some error) \<Rightarrow>
                  (before @ acts @
                   [ConsoleError,
                    AddDoc path (errorMessage env error) (error_write env),
                    SetIsLoading False],
                   case error_write env of
                     Rejected e \<Rightarrow> Rejected e
                   | Resolved j \<Rightarrow> Resolved ())))"

text \<open>\<^verbatim>\<open>handleSendMessage\<close> (lines 211 to 278), with the guard of line 212.\<close>

definition handleSendMessage ::
  "runtime \<Rightarrow> jsstring \<Rightarrow> send_env \<Rightarrow> app_state \<Rightarrow> action list \<times> unit outcome" where
  "handleSendMessage rt appId env s =
     (if trim (input s) = [] then ([], Resolved ())
      else case user s of
        None \<Rightarrow> ([], Resolved ())
      | Some u \<Rightarrow>
          (case activeChatId s of
             None \<Rightarrow> ([], Resolved ())
           | Some c \<Rightarrow>
               if c = [] \<or> isLoading s then ([], Resolved ())
               else sendPipeline rt appId env u c s))"

text \<open>A state in which the guard lets a call through, for the user \<open>u\<close> and the chat \<open>c\<close>.\<close>

definition sendAccepted :: "app_state \<Rightarrow> firebase_user \<Rightarrow> jsstring \<Rightarrow> bool" where
  "sendAccepted s u c =
     (trim (input s) \<noteq> [] \<and> user s = Some u \<and> activeChatId s = Some c \<and> c \<noteq> [] \<and> \<not> isLoading s)"

section \<open>The response shapes the specification names\<close>

text \<open>
  These two definitions follow the words of the specification, not the source; the theorems
  below compare the source's guard with them. The first is the specification's
  \<^verbatim>\<open>candidates[0].content.parts[0].text\<close> (section 6): the body is an object whose
  \<^verbatim>\<open>candidates\<close> is an array, whose first element is an object with an object \<^verbatim>\<open>content\<close>,
  whose \<^verbatim>\<open>parts\<close> is an array, whose first element is an object with a \<^verbatim>\<open>text\<close>.
\<close>

fun objField :: "jsval \<Rightarrow> key \<Rightarrow> jsval option" where
  "objField (JObj kvs) k = map_of kvs (keyName k)"
| "objField v k = None"

fun arrFirst :: "jsval \<Rightarrow> jsval option" where
  "arrFirst (JArr (x # xs)) = Some x"
| "arrFirst v = None"

definition specFirstCandidateText :: "jsval \<Rightarrow> jsval option" where
  "specFirstCandidateText result =
     Option.bind (objField result Candidates) (\<lambda>cands.
     Option.bind (arrFirst cands) (\<lambda>c0.
     Option.bind (objField c0 Content) (\<lambda>cont.
     Option.bind (objField cont Parts) (\<lambda>ps.
     Option.bind (arrFirst ps) (\<lambda>p0.
     objField p0 Text)))))"

text \<open>
  The second is a response that "parses but lacks expected fields" (section 7): an object in
  which \<^verbatim>\<open>candidates\<close> is missing (absent, \<^verbatim>\<open>null\<close> or an empty array), or whose first
  candidate is an object with \<^verbatim>\<open>content\<close> missing, or with an object \<^verbatim>\<open>content\<close> whose
  \<^verbatim>\<open>parts\<close> is missing.
\<close>

fun missing :: "jsval option \<Rightarrow> bool" where
  "missing None = True"
| "missing (Some JNull) = True"
| "missing (Some (JArr [])) = True"
| "missing (Some v) = False"

definition specLacksExpectedFields :: "jsval \<Rightarrow> bool" where
  "specLacksExpectedFields result =
     (case result of
        JObj kvs \<Rightarrow>
          missing (objField result Candidates) \<or>
          (case Option.bind (objField result Candidates) arrFirst of
             Some (JObj c0) \<Rightarrow>
               missing (objField (JObj c0) Content) \<or>
               (case objField (JObj c0) Content of
                  Some (JObj cont) \<Rightarrow> missing (objField (JObj cont) Parts)
                | _ \<Rightarrow> False)
           | _ \<Rightarrow> False)
      | _ \<Rightarrow> False)"

section \<open>Concrete inputs\<close>

text \<open>
  A state, a runtime and an environment for the concrete runs below: an anonymous user with
  the chat \<open>c1\<close> selected, the padded text \<open>hi\<close> in the input box, an empty store, and a
  completion endpoint that answers with status 500. The runtime words its TypeErrors as V8
  does; none of the runs compares a non-number with 0.
\<close>

definition defaultAppId :: jsstring where
  "defaultAppId = js ''t3-chat-clone''"

definition demoUser :: firebase_user where
  "demoUser = \<lparr>uid = js ''u1'', isAnonymous = True\<rparr>"

definition demoState :: app_state where
  "demoState =
     \<lparr>user = Some demoUser, chats = [], activeChatId = Some (js ''c1''), messages = [],
      input = js '' hi '', isLoading = False, isAuthReady = True, db = (\<lambda>p. []), listeners = []\<rparr>"

definition demoRuntime :: runtime where
  "demoRuntime =
     \<lparr>typeErrorMessage = (\<lambda>te. case te of CannotRead v k \<Rightarrow>
          js ''Cannot read properties of '' @ (if v = JNull then js ''null'' else js ''undefined'')
          @ js '' (reading '' @ [0x27] @ keyName k @ [0x27] @ js '')''),
      toNumberGtZero = (\<lambda>v. False)\<rparr>"

definition demoEnv :: send_env where
  "demoEnv =
     \<lparr>now_user = 1, user_write = Resolved (js ''m1''),
      fetch_result = Resolved \<lparr>status = 500\<rparr>, json_result = Rejected NonError,
      now_model = 2, model_write = Resolved (js ''m2''),
      now_error = 3, error_write = Resolved (js ''m3'')\<rparr>"

text \<open>The successful response of the specification's example, and two malformed ones.\<close>

definition helloResponse :: jsval where
  "helloResponse =
     JObj [(js ''candidates'',
            JArr [JObj [(js ''content'',
                         JObj [(js ''parts'', JArr [JObj [(js ''text'', JStr (js ''Hello''))]])])]])]"

definition emptyCandidates :: jsval where
  "emptyCandidates = JObj [(js ''candidates'', JArr [])]"

definition nullCandidate :: jsval where
  "nullCandidate = JObj [(js ''candidates'', JArr [JNull])]"

definition okEnv :: "jsval outcome \<Rightarrow> send_env" where
  "okEnv body = demoEnv\<lparr>fetch_result := Resolved \<lparr>status = 200\<rparr>, json_result := body\<rparr>"

definition demoPath :: jsstring where
  "demoPath = messagesCollectionPath defaultAppId demoUser (js ''c1'')"

definition permissionDenied :: js_exn where
  "permissionDenied = ErrorObj (js ''Missing or insufficient permissions.'')"

text \<open>The state \<open>demoState\<close> with two earlier messages in its cache.\<close>

definition historyState :: app_state where
  "historyState =
     demoState\<lparr>messages :=
       [\<lparr>msg_id = js ''m8'', msg_text = JStr (js ''ping''), msg_role = User, msg_timestamp = 0\<rparr>,
        \<lparr>msg_id = js ''m9'', msg_text = JStr (js ''pong''), msg_role = Model, msg_timestamp = 0\<rparr>]\<rparr>"

text \<open>States and environments for the thread list: no chat yet, one chat, three chats.\<close>

definition emptyState :: app_state where
  "emptyState = demoState\<lparr>activeChatId := None\<rparr>"

definition createOk :: newchat_env where
  "createOk = \<lparr>nc_now = 7, nc_write = Resolved (js ''c2'')\<rparr>"

definition createDenied :: newchat_env where
  "createDenied = \<lparr>nc_now = 7, nc_write = Rejected permissionDenied\<rparr>"

definition demoChatsPath :: jsstring where
  "demoChatsPath = chatsCollectionPath defaultAppId demoUser"

definition chatA :: chat where "chatA = \<lparr>chat_id = js ''a'', title = js ''New Chat'', createdAt = 3\<rparr>"
definition chatB :: chat where "chatB = \<lparr>chat_id = js ''b'', title = js ''New Chat'', createdAt = 2\<rparr>"
definition chatC :: chat where "chatC = \<lparr>chat_id = js ''c'', title = js ''New Chat'', createdAt = 1\<rparr>"

definition threeChats :: app_state where
  "threeChats = demoState\<lparr>chats := [chatA, chatB, chatC], activeChatId := Some (js ''b'')\<rparr>"

definition oneChat :: app_state where
  "oneChat = demoState\<lparr>chats := [chatB], activeChatId := Some (js ''b'')\<rparr>"

text \<open>
  Two interleavings of handlers on \<open>oneChat\<close>. In both a first send has written its user
  message and issued its request, and the rest of its trace (the \<^verbatim>\<open>catch\<close> block and \<^verbatim>\<open>finally\<close>)
  waits for the response: \<open>sendPending\<close>. Then the chats listener pushes an empty list, which
  starts \<^verbatim>\<open>handleNewChat\<close>: \<open>autoCreate\<close>. In \<open>createdMeanwhile\<close> that creation runs to its end
  while the send still waits, and the user types again. In \<open>sentMeanwhile\<close> the creation waits
  for its \<^verbatim>\<open>addDoc\<close>, the first send finishes, and the user types again.
\<close>

definition firstSend :: "action list" where
  "firstSend = fst (handleSendMessage demoRuntime defaultAppId demoEnv oneChat)"

definition sendPending :: app_state where
  "sendPending = run (take 4 firstSend) oneChat"

definition autoCreate :: "action list" where
  "autoCreate = onChatsSnapshot defaultAppId createOk sendPending []"


definition creationPending :: app_state where
  "creationPending = run (take 3 autoCreate) sendPending"

definition sentMeanwhile :: app_state where
  "sentMeanwhile = apply_action (SetInput (js ''again'')) (run (drop 4 firstSend) creationPending)"

section \<open>Basic facts\<close>



lemma run_Nil: "run [] s = s"
  by (simp add: run_def)

lemma run_Cons: "run (a # acts) s = run acts (apply_action a s)"
  by (simp add: run_def)

lemma run_append: "run (xs @ ys) s = run ys (run xs s)"
  by (simp add: run_def)

section \<open>The send pipeline rejects\<close>



section \<open>The send pipeline, step by step\<close>

lemma handleSendMessage_accepted:
  "sendAccepted s u c \<Longrightarrow> handleSendMessage rt appId env s = sendPipeline rt appId env u c s"
  by (simp add: sendAccepted_def handleSendMessage_def)

lemma demo_trim: "trim (input demoState) = js ''hi''"
  by (simp add: demoState_def trim_def js_def isWhiteSpace_def)

lemma demo_accepted: "sendAccepted demoState demoUser (js ''c1'')"
  by (simp add: sendAccepted_def demo_trim) (simp add: demoState_def js_def)

lemma showNat_500: "showNat 500 = js ''500''"
  by (simp add: showNat.simps js_def)

lemma demoEnv_fields:
  "user_write demoEnv = Resolved (js ''m1'')"
  "fetch_result demoEnv = Resolved \<lparr>status = 500\<rparr>"
  "error_write demoEnv = Resolved (js ''m3'')"
  "now_user demoEnv = 1" "now_error demoEnv = 3"
  by (simp_all add: demoEnv_def)

lemma okEnv_fields:
  "user_write (okEnv body) = Resolved (js ''m1'')"
  "fetch_result (okEnv body) = Resolved \<lparr>status = 200\<rparr>"
  "json_result (okEnv body) = body"
  "model_write (okEnv body) = Resolved (js ''m2'')"
  "error_write (okEnv body) = Resolved (js ''m3'')"
  "now_user (okEnv body) = 1" "now_model (okEnv body) = 2" "now_error (okEnv body) = 3"
  by (simp_all add: okEnv_def demoEnv_def)

lemma ok_200: "ok \<lparr>status = 200\<rparr>"
  by (simp add: ok_def)

lemma sendPipeline_trace:
  "fst (sendPipeline rt appId env u c s) =
     [SetInput [], SetIsLoading True,
      AddDoc (messagesCollectionPath appId u c) (userMessage env (trim (input s))) (user_write env)] @
     (case user_write env of
        Rejected e \<Rightarrow> []
      | Resolved i \<Rightarrow>
          fst (tryBlock rt env (messagesCollectionPath appId u c) (messages s) (trim (input s))) @
          (case snd (tryBlock rt env (messagesCollectionPath appId u c) (messages s) (trim (input s))) of
             None \<Rightarrow> []
           | Some e \<Rightarrow> [ConsoleError,
                AddDoc (messagesCollectionPath appId u c) (errorMessage env e) (error_write env)]) @
          [SetIsLoading False])"
  by (simp add: sendPipeline_def Let_def split: outcome.splits prod.splits option.splits)

lemma sendPipeline_result:
  "snd (sendPipeline rt appId env u c s) =
     (case user_write env of
        Rejected e \<Rightarrow> Rejected e
      | Resolved i \<Rightarrow>
          (case snd (tryBlock rt env (messagesCollectionPath appId u c) (messages s) (trim (input s))) of
             None \<Rightarrow> Resolved ()
           | Some e \<Rightarrow> (case error_write env of Rejected e' \<Rightarrow> Rejected e' | Resolved j \<Rightarrow> Resolved ())))"
  by (simp add: sendPipeline_def Let_def split: outcome.splits prod.splits option.splits)

lemma tryBlock_not_ok:
  assumes "fetch_result env = Resolved r" "\<not> ok r"
  shows "tryBlock rt env p ms ui =
           ([Fetch apiUrl \<lparr>contents = chatHistory ms ui\<rparr> (Resolved r)],
            Some (ErrorObj (js ''API call failed with status: '' @ showNat (status r))))"
  using assms by (simp add: tryBlock_def Let_def)

lemma isLoading_run_snoc: "isLoading (run (acts @ [SetIsLoading b]) s) = b"
  by (simp add: run_append run_Cons run_Nil)

section \<open>The loading flag after a send\<close>

text \<open>
  Once the user message is written, every path of \<^verbatim>\<open>handleSendMessage\<close> ends in the
  \<^verbatim>\<open>finally\<close> block: whatever the request, the parsing and the later writes do, the flag is
  idle at the end.
\<close>

theorem sendMessage_idle_after_user_write:
  assumes acc: "sendAccepted s u c" and w1: "user_write env = Resolved i"
  shows "isLoading (run (fst (handleSendMessage rt appId env s)) s) = False"
proof -
  obtain front where "fst (handleSendMessage rt appId env s) = front @ [SetIsLoading False]"
    by (simp add: handleSendMessage_accepted [OF acc] sendPipeline_trace w1)
  then show ?thesis by (simp add: isLoading_run_snoc)
qed

theorem sendMessage_idle_after_user_write_witness:
  "sendAccepted demoState demoUser (js ''c1'') \<and> user_write demoEnv = Resolved (js ''m1'')
   \<and> isLoading (run (fst (handleSendMessage demoRuntime defaultAppId demoEnv demoState)) demoState) = False
   \<and> user_write (okEnv (Resolved nullCandidate)) = Resolved (js ''m1'')
   \<and> isLoading (run (fst (handleSendMessage demoRuntime defaultAppId (okEnv (Resolved nullCandidate)) demoState))
        demoState) = False"
  using demo_accepted demoEnv_fields(1) okEnv_fields(1)
    sendMessage_idle_after_user_write [OF demo_accepted demoEnv_fields(1), of demoRuntime defaultAppId]
    sendMessage_idle_after_user_write [where rt = demoRuntime and appId = defaultAppId
      and env = "okEnv (Resolved nullCandidate)", OF demo_accepted okEnv_fields(1)]
  by (intro conjI)

text \<open>
  Claim C2, at a failing input. The first \<^verbatim>\<open>addDoc\<close> (line 226) is awaited outside the
  \<^verbatim>\<open>try\<close>: when the store rejects the user message, the promise of \<^verbatim>\<open>handleSendMessage\<close>
  rejects, \<^verbatim>\<open>finally\<close> never runs, and the loading flag stays set. The run below is the
  accepted call on \<open>demoState\<close> with a store that denies the write.
\<close>

theorem sendMessage_user_write_rejected_stays_sending:
  "fst (handleSendMessage demoRuntime defaultAppId (demoEnv\<lparr>user_write := Rejected permissionDenied\<rparr>) demoState)
     = [SetInput [], SetIsLoading True,
        AddDoc demoPath (MessageData (JStr (js ''hi'')) User 1) (Rejected permissionDenied)]
   \<and> snd (handleSendMessage demoRuntime defaultAppId (demoEnv\<lparr>user_write := Rejected permissionDenied\<rparr>) demoState)
     = Rejected permissionDenied
   \<and> isLoading (run (fst (handleSendMessage demoRuntime defaultAppId
        (demoEnv\<lparr>user_write := Rejected permissionDenied\<rparr>) demoState)) demoState) = True"
proof -
  have tr: "fst (handleSendMessage demoRuntime defaultAppId
        (demoEnv\<lparr>user_write := Rejected permissionDenied\<rparr>) demoState)
     = [SetInput [], SetIsLoading True,
        AddDoc demoPath (MessageData (JStr (js ''hi'')) User 1) (Rejected permissionDenied)]"
    by (simp add: handleSendMessage_accepted [OF demo_accepted] sendPipeline_trace demo_trim demoPath_def
        userMessage_def demoEnv_def)
  have res: "snd (handleSendMessage demoRuntime defaultAppId
        (demoEnv\<lparr>user_write := Rejected permissionDenied\<rparr>) demoState) = Rejected permissionDenied"
    by (simp add: handleSendMessage_accepted [OF demo_accepted] sendPipeline_result)
  have flag: "isLoading (run (fst (handleSendMessage demoRuntime defaultAppId
        (demoEnv\<lparr>user_write := Rejected permissionDenied\<rparr>) demoState)) demoState) = True"
    unfolding tr by (simp add: run_Cons run_Nil)
  show ?thesis using tr res flag by (intro conjI)
qed

section \<open>A completion request that fails\<close>

text \<open>
  Claim C3, as amended. For an accepted call whose completion request returns a status
  outside 200 to 299, and whose two store writes are accepted, the message collection of
  the selected chat gains exactly two documents, in this order: the user message, whose text
  is the trimmed input, and a model message whose text is \<open>Error: API call failed with
  status: \<close> followed by the status. No other collection changes, these are the only store
  writes, and the promise resolves.
\<close>

theorem sendMessage_error_status_two_entries:
  assumes acc: "sendAccepted s u c"
    and w1: "user_write env = Resolved i1"
    and f: "fetch_result env = Resolved r"
    and nok: "\<not> ok r"
    and w3: "error_write env = Resolved i2"
  shows "db (run (fst (handleSendMessage rt appId env s)) s) =
           (db s)(messagesCollectionPath appId u c :=
              db s (messagesCollectionPath appId u c) @
              [(i1, MessageData (JStr (trim (input s))) User (now_user env)),
               (i2, MessageData (JStr (js ''Error: '' @ js ''API call failed with status: '' @ showNat (status r)))
                      Model (now_error env))])
         \<and> filter isStoreWrite (fst (handleSendMessage rt appId env s)) =
             [AddDoc (messagesCollectionPath appId u c) (MessageData (JStr (trim (input s))) User (now_user env))
                (Resolved i1),
              AddDoc (messagesCollectionPath appId u c)
                (MessageData (JStr (js ''Error: '' @ js ''API call failed with status: '' @ showNat (status r)))
                   Model (now_error env)) (Resolved i2)]
         \<and> snd (handleSendMessage rt appId env s) = Resolved ()"
proof -
  have tr: "fst (handleSendMessage rt appId env s) =
      [SetInput [], SetIsLoading True,
       AddDoc (messagesCollectionPath appId u c) (MessageData (JStr (trim (input s))) User (now_user env))
         (Resolved i1),
       Fetch apiUrl \<lparr>contents = chatHistory (messages s) (trim (input s))\<rparr> (Resolved r),
       ConsoleError,
       AddDoc (messagesCollectionPath appId u c)
         (MessageData (JStr (js ''Error: '' @ js ''API call failed with status: '' @ showNat (status r)))
            Model (now_error env)) (Resolved i2),
       SetIsLoading False]"
    by (simp add: handleSendMessage_accepted [OF acc] sendPipeline_trace w1 w3
        tryBlock_not_ok [OF f nok] userMessage_def errorMessage_def)
  have res: "snd (handleSendMessage rt appId env s) = Resolved ()"
    by (simp add: handleSendMessage_accepted [OF acc] sendPipeline_result w1 w3
        tryBlock_not_ok [OF f nok])
  show ?thesis
    unfolding tr using res by (simp add: run_Cons run_Nil)
qed

text \<open>The run on \<open>demoState\<close>, whose input is \<open>hi\<close> between two spaces, with status 500.\<close>

theorem sendMessage_error_status_two_entries_witness:
  "sendAccepted demoState demoUser (js ''c1'')
   \<and> user_write demoEnv = Resolved (js ''m1'')
   \<and> fetch_result demoEnv = Resolved \<lparr>status = 500\<rparr>
   \<and> \<not> ok \<lparr>status = 500\<rparr>
   \<and> error_write demoEnv = Resolved (js ''m3'')
   \<and> db (run (fst (handleSendMessage demoRuntime defaultAppId demoEnv demoState)) demoState) demoPath =
       [(js ''m1'', MessageData (JStr (js ''hi'')) User 1),
        (js ''m3'', MessageData (JStr (js ''Error: API call failed with status: 500'')) Model 3)]
   \<and> snd (handleSendMessage demoRuntime defaultAppId demoEnv demoState) = Resolved ()"
proof -
  have w1: "user_write demoEnv = Resolved (js ''m1'')" by (simp add: demoEnv_def)
  have f: "fetch_result demoEnv = Resolved \<lparr>status = 500\<rparr>" by (simp add: demoEnv_def)
  have nok: "\<not> ok \<lparr>status = 500\<rparr>" by (simp add: ok_def)
  have w3: "error_write demoEnv = Resolved (js ''m3'')" by (simp add: demoEnv_def)
  note run = sendMessage_error_status_two_entries [OF demo_accepted w1 f nok w3, of demoRuntime defaultAppId]
  from run have store:
    "db (run (fst (handleSendMessage demoRuntime defaultAppId demoEnv demoState)) demoState) demoPath =
       [(js ''m1'', MessageData (JStr (js ''hi'')) User 1),
        (js ''m3'', MessageData (JStr (js ''Error: API call failed with status: 500'')) Model 3)]"
    by (simp add: demoPath_def demo_trim showNat_500) (simp add: demoState_def demoEnv_def js_def)
  from run have res: "snd (handleSendMessage demoRuntime defaultAppId demoEnv demoState) = Resolved ()"
    by blast
  show ?thesis
    using demo_accepted w1 f nok w3 store res by (intro conjI)
qed

text \<open>
  Claim C3 as stated fails twice on that state. The user entry holds the trimmed text, not
  the text of the input box; and when the store rejects the write of the \<^verbatim>\<open>catch\<close> block, the
  log gains one entry only and the promise rejects.
\<close>

theorem sendMessage_error_status_counterexample:
  "db (run (fst (handleSendMessage demoRuntime defaultAppId demoEnv demoState)) demoState) demoPath =
     [(js ''m1'', MessageData (JStr (js ''hi'')) User 1),
      (js ''m3'', MessageData (JStr (js ''Error: API call failed with status: 500'')) Model 3)]
   \<and> input demoState = js '' hi ''
   \<and> js ''hi'' \<noteq> js '' hi ''
   \<and> db (run (fst (handleSendMessage demoRuntime defaultAppId (demoEnv\<lparr>error_write := Rejected permissionDenied\<rparr>)
            demoState)) demoState) demoPath =
       [(js ''m1'', MessageData (JStr (js ''hi'')) User 1)]
   \<and> snd (handleSendMessage demoRuntime defaultAppId (demoEnv\<lparr>error_write := Rejected permissionDenied\<rparr>)
            demoState) = Rejected permissionDenied"
proof -
  have tr: "\<And>w. fst (handleSendMessage demoRuntime defaultAppId (demoEnv\<lparr>error_write := w\<rparr>) demoState) =
      [SetInput [], SetIsLoading True,
       AddDoc demoPath (MessageData (JStr (js ''hi'')) User 1) (Resolved (js ''m1'')),
       Fetch apiUrl \<lparr>contents = chatHistory [] (js ''hi'')\<rparr> (Resolved \<lparr>status = 500\<rparr>),
       ConsoleError,
       AddDoc demoPath (MessageData (JStr (js ''Error: API call failed with status: 500'')) Model 3) w,
       SetIsLoading False]"
    by (simp add: handleSendMessage_accepted [OF demo_accepted] sendPipeline_trace demo_trim demoPath_def
        tryBlock_def ok_def showNat_500 userMessage_def errorMessage_def demoEnv_def)
       (simp add: demoState_def js_def)
  have res: "snd (handleSendMessage demoRuntime defaultAppId (demoEnv\<lparr>error_write := Rejected permissionDenied\<rparr>)
            demoState) = Rejected permissionDenied"
    by (simp add: handleSendMessage_accepted [OF demo_accepted] sendPipeline_result
        tryBlock_def ok_def demoEnv_def)
  have same: "demoEnv\<lparr>error_write := Resolved (js ''m3'')\<rparr> = demoEnv"
    by (simp add: demoEnv_def)
  have d0: "db demoState = (\<lambda>p. [])" by (simp add: demoState_def)
  have "db (run (fst (handleSendMessage demoRuntime defaultAppId demoEnv demoState)) demoState) demoPath =
     [(js ''m1'', MessageData (JStr (js ''hi'')) User 1),
      (js ''m3'', MessageData (JStr (js ''Error: API call failed with status: 500'')) Model 3)]"
    using tr [of "Resolved (js ''m3'')"] unfolding same by (simp add: run_Cons run_Nil d0)
  moreover have "db (run (fst (handleSendMessage demoRuntime defaultAppId
        (demoEnv\<lparr>error_write := Rejected permissionDenied\<rparr>) demoState)) demoState) demoPath =
       [(js ''m1'', MessageData (JStr (js ''hi'')) User 1)]"
    unfolding tr by (simp add: run_Cons run_Nil d0)
  moreover have "input demoState = js '' hi ''" by (simp add: demoState_def)
  moreover have "js ''hi'' \<noteq> js '' hi ''" by (simp add: js_def)
  ultimately show ?thesis using res by (intro conjI)
qed


section \<open>The reply that is written\<close>

lemma getProp_obj: "objField v k = Some x \<Longrightarrow> getProp v k = Inr x"
  by (cases v) auto

lemma arrFirst_props:
  "arrFirst v = Some x \<Longrightarrow>
     truthy v \<and> (\<exists>n. getProp v Length = Inr n \<and> gtZero rt n) \<and> getProp v Index0 = Inr x"
  by (cases "v" rule: arrFirst.cases) auto

lemma objField_truthy: "objField v k = Some x \<Longrightarrow> truthy v"
  by (cases v) auto

lemma extract_first_candidate:
  assumes "specFirstCandidateText result = Some t"
  shows "extractModelResponse rt result = Inr t"
proof -
  from assms obtain cands c0 cont ps p0 where
    1: "objField result Candidates = Some cands" and
    2: "arrFirst cands = Some c0" and
    3: "objField c0 Content = Some cont" and
    4: "objField cont Parts = Some ps" and
    5: "arrFirst ps = Some p0" and
    6: "objField p0 Text = Some t"
    by (auto simp: specFirstCandidateText_def bind_eq_Some_conv)
  from arrFirst_props [OF 2, of rt] obtain n where
    c: "truthy cands" "getProp cands Length = Inr n" "gtZero rt n" "getProp cands Index0 = Inr c0"
    by blast
  from arrFirst_props [OF 5, of rt] obtain m where
    p: "truthy ps" "getProp ps Length = Inr m" "gtZero rt m" "getProp ps Index0 = Inr p0"
    by blast
  have t: "truthy cont" using 4 by (rule objField_truthy)
  show ?thesis
    by (simp add: extractModelResponse_def getProp_obj [OF 1] getProp_obj [OF 3] getProp_obj [OF 4]
        getProp_obj [OF 6] c p t)
qed

lemma missing_cases: "missing x \<longleftrightarrow> x = None \<or> x = Some JNull \<or> x = Some (JArr [])"
  by (cases x rule: missing.cases) auto

lemma arrFirst_Some: "arrFirst v = Some x \<longleftrightarrow> (\<exists>xs. v = JArr (x # xs))"
  by (cases v rule: arrFirst.cases) auto

lemma extract_lacks_fields:
  assumes "specLacksExpectedFields result"
  shows "extractModelResponse rt result = Inr (JStr fallbackText)"
proof -
  from assms obtain kvs where r: "result = JObj kvs"
    by (cases result) (auto simp: specLacksExpectedFields_def)
  show ?thesis
  proof (cases "missing (objField result Candidates)")
    case True
    then show ?thesis
      unfolding r by (auto simp: missing_cases extractModelResponse_def)
  next
    case False
    with assms r obtain cands c0 cs where
      c: "map_of kvs (keyName Candidates) = Some cands" "cands = JArr (JObj c0 # cs)" and
      rest: "missing (objField (JObj c0) Content) \<or>
             (case objField (JObj c0) Content of
                Some (JObj cont) \<Rightarrow> missing (objField (JObj cont) Parts) | _ \<Rightarrow> False)"
      by (auto simp: specLacksExpectedFields_def bind_eq_Some_conv arrFirst_Some
          split: option.splits jsval.splits)
    from rest show ?thesis
    proof
      assume "missing (objField (JObj c0) Content)"
      then show ?thesis
        unfolding r using c by (auto simp: missing_cases extractModelResponse_def)
    next
      assume "case objField (JObj c0) Content of
                Some (JObj cont) \<Rightarrow> missing (objField (JObj cont) Parts) | _ \<Rightarrow> False"
      then obtain cont where
        d: "map_of c0 (keyName Content) = Some (JObj cont)" "missing (objField (JObj cont) Parts)"
        by (auto split: option.splits jsval.splits)
      then show ?thesis
        unfolding r using c by (auto simp: missing_cases extractModelResponse_def)
    qed
  qed
qed

text \<open>The store writes of an accepted call whose request came back with a success status.\<close>

lemma writes_reply:
  assumes acc: "sendAccepted s u c"
    and w1: "user_write env = Resolved i1"
    and f: "fetch_result env = Resolved r"
    and okr: "ok r"
    and j: "json_result env = Resolved result"
    and ex: "extractModelResponse rt result = Inr v"
  shows "take 2 (filter isStoreWrite (fst (handleSendMessage rt appId env s))) =
           [AddDoc (messagesCollectionPath appId u c) (userMessage env (trim (input s))) (Resolved i1),
            AddDoc (messagesCollectionPath appId u c) (modelMessage env v) (model_write env)]"
  by (simp add: handleSendMessage_accepted [OF acc] sendPipeline_trace w1 tryBlock_def f okr j ex Let_def
      split: outcome.splits)

lemma writes_thrown:
  assumes acc: "sendAccepted s u c"
    and w1: "user_write env = Resolved i1"
    and thrown: "snd (tryBlock rt env (messagesCollectionPath appId u c) (messages s) (trim (input s))) = Some e"
    and nowrite: "filter isStoreWrite
        (fst (tryBlock rt env (messagesCollectionPath appId u c) (messages s) (trim (input s)))) = []"
  shows "filter isStoreWrite (fst (handleSendMessage rt appId env s)) =
           [AddDoc (messagesCollectionPath appId u c) (userMessage env (trim (input s))) (Resolved i1),
            AddDoc (messagesCollectionPath appId u c) (errorMessage env e) (error_write env)]"
  by (simp add: handleSendMessage_accepted [OF acc] sendPipeline_trace w1 thrown nowrite)

text \<open>
  Claim C4, as amended. For an accepted call whose user message is written and whose
  request returns a success status, the second store write is: the model message with the
  first candidate's text, when the body has the shape \<^verbatim>\<open>candidates[0].content.parts[0].text\<close>;
  the model message with the fallback text, when the body is an object that lacks
  \<^verbatim>\<open>candidates\<close>, the first candidate's \<^verbatim>\<open>content\<close> or its \<^verbatim>\<open>parts\<close>; and the message of the
  \<^verbatim>\<open>catch\<close> block, \<open>Error: \<close> followed by the error's message, when the body does not parse or
  the guard reads a property of \<^verbatim>\<open>null\<close> or \<^verbatim>\<open>undefined\<close>.
\<close>

theorem sendMessage_reply_text:
  assumes acc: "sendAccepted s u c"
    and w1: "user_write env = Resolved i1"
    and f: "fetch_result env = Resolved r"
    and okr: "ok r"
  shows "(json_result env = Resolved result \<and> specFirstCandidateText result = Some t \<longrightarrow>
            take 2 (filter isStoreWrite (fst (handleSendMessage rt appId env s))) =
              [AddDoc (messagesCollectionPath appId u c)
                 (MessageData (JStr (trim (input s))) User (now_user env)) (Resolved i1),
               AddDoc (messagesCollectionPath appId u c)
                 (MessageData t Model (now_model env)) (model_write env)])
       \<and> (json_result env = Resolved result \<and> specLacksExpectedFields result \<longrightarrow>
            take 2 (filter isStoreWrite (fst (handleSendMessage rt appId env s))) =
              [AddDoc (messagesCollectionPath appId u c)
                 (MessageData (JStr (trim (input s))) User (now_user env)) (Resolved i1),
               AddDoc (messagesCollectionPath appId u c)
                 (MessageData (JStr fallbackText) Model (now_model env)) (model_write env)])
       \<and> (json_result env = Rejected (ErrorObj msg) \<longrightarrow>
            filter isStoreWrite (fst (handleSendMessage rt appId env s)) =
              [AddDoc (messagesCollectionPath appId u c)
                 (MessageData (JStr (trim (input s))) User (now_user env)) (Resolved i1),
               AddDoc (messagesCollectionPath appId u c)
                 (MessageData (JStr (js ''Error: '' @ msg)) Model (now_error env)) (error_write env)])
       \<and> (json_result env = Resolved result \<and> extractModelResponse rt result = Inl te \<longrightarrow>
            filter isStoreWrite (fst (handleSendMessage rt appId env s)) =
              [AddDoc (messagesCollectionPath appId u c)
                 (MessageData (JStr (trim (input s))) User (now_user env)) (Resolved i1),
               AddDoc (messagesCollectionPath appId u c)
                 (MessageData (JStr (js ''Error: '' @ typeErrorMessage rt te)) Model (now_error env))
                 (error_write env)])"
proof (intro conjI impI)
  assume "json_result env = Resolved result \<and> specFirstCandidateText result = Some t"
  then show "take 2 (filter isStoreWrite (fst (handleSendMessage rt appId env s))) =
              [AddDoc (messagesCollectionPath appId u c)
                 (MessageData (JStr (trim (input s))) User (now_user env)) (Resolved i1),
               AddDoc (messagesCollectionPath appId u c)
                 (MessageData t Model (now_model env)) (model_write env)]"
    using writes_reply [OF acc w1 f okr _ extract_first_candidate, of result t rt appId]
    by (simp add: userMessage_def modelMessage_def)
next
  assume "json_result env = Resolved result \<and> specLacksExpectedFields result"
  then show "take 2 (filter isStoreWrite (fst (handleSendMessage rt appId env s))) =
              [AddDoc (messagesCollectionPath appId u c)
                 (MessageData (JStr (trim (input s))) User (now_user env)) (Resolved i1),
               AddDoc (messagesCollectionPath appId u c)
                 (MessageData (JStr fallbackText) Model (now_model env)) (model_write env)]"
    using writes_reply [OF acc w1 f okr _ extract_lacks_fields, of result rt appId]
    by (simp add: userMessage_def modelMessage_def)
next
  assume j: "json_result env = Rejected (ErrorObj msg)"
  show "filter isStoreWrite (fst (handleSendMessage rt appId env s)) =
              [AddDoc (messagesCollectionPath appId u c)
                 (MessageData (JStr (trim (input s))) User (now_user env)) (Resolved i1),
               AddDoc (messagesCollectionPath appId u c)
                 (MessageData (JStr (js ''Error: '' @ msg)) Model (now_error env)) (error_write env)]"
    using writes_thrown [OF acc w1, of rt appId "ErrorObj msg"]
    by (simp add: tryBlock_def f okr j userMessage_def errorMessage_def)
next
  assume "json_result env = Resolved result \<and> extractModelResponse rt result = Inl te"
  then show "filter isStoreWrite (fst (handleSendMessage rt appId env s)) =
              [AddDoc (messagesCollectionPath appId u c)
                 (MessageData (JStr (trim (input s))) User (now_user env)) (Resolved i1),
               AddDoc (messagesCollectionPath appId u c)
                 (MessageData (JStr (js ''Error: '' @ typeErrorMessage rt te)) Model (now_error env))
                 (error_write env)]"
    using writes_thrown [OF acc w1, of rt appId "ErrorObj (typeErrorMessage rt te)"]
    by (simp add: tryBlock_def f okr userMessage_def errorMessage_def)
qed


lemma hello_text: "specFirstCandidateText helloResponse = Some (JStr (js ''Hello''))"
  by (simp add: specFirstCandidateText_def helloResponse_def js_def)

lemma emptyCandidates_lacks: "specLacksExpectedFields emptyCandidates"
  by (simp add: specLacksExpectedFields_def emptyCandidates_def js_def)

lemma nullCandidate_throws:
  "extractModelResponse demoRuntime nullCandidate = Inl (CannotRead JNull Content)"
  by (simp add: extractModelResponse_def nullCandidate_def js_def)

lemma demo_type_error:
  "typeErrorMessage demoRuntime (CannotRead JNull Content) =
     js ''Cannot read properties of null (reading '' @ [0x27] @ js ''content'' @ [0x27] @ js '')''"
  by (simp add: demoRuntime_def js_def)

text \<open>The specification's example response, and a response with no candidates.\<close>

theorem sendMessage_reply_text_witness:
  "sendAccepted demoState demoUser (js ''c1'')
   \<and> user_write (okEnv (Resolved helloResponse)) = Resolved (js ''m1'')
   \<and> fetch_result (okEnv (Resolved helloResponse)) = Resolved \<lparr>status = 200\<rparr>
   \<and> ok \<lparr>status = 200\<rparr>
   \<and> json_result (okEnv (Resolved helloResponse)) = Resolved helloResponse
   \<and> specFirstCandidateText helloResponse = Some (JStr (js ''Hello''))
   \<and> take 2 (filter isStoreWrite
        (fst (handleSendMessage demoRuntime defaultAppId (okEnv (Resolved helloResponse)) demoState))) =
       [AddDoc demoPath (MessageData (JStr (js ''hi'')) User 1) (Resolved (js ''m1'')),
        AddDoc demoPath (MessageData (JStr (js ''Hello'')) Model 2) (Resolved (js ''m2''))]
   \<and> specLacksExpectedFields emptyCandidates
   \<and> take 2 (filter isStoreWrite
        (fst (handleSendMessage demoRuntime defaultAppId (okEnv (Resolved emptyCandidates)) demoState))) =
       [AddDoc demoPath (MessageData (JStr (js ''hi'')) User 1) (Resolved (js ''m1'')),
        AddDoc demoPath (MessageData (JStr fallbackText) Model 2) (Resolved (js ''m2''))]"
proof -
  note hello = sendMessage_reply_text [OF demo_accepted okEnv_fields(1) okEnv_fields(2) ok_200,
      of "Resolved helloResponse" helloResponse "JStr (js ''Hello'')" demoRuntime defaultAppId]
  note empty = sendMessage_reply_text [OF demo_accepted okEnv_fields(1) okEnv_fields(2) ok_200,
      of "Resolved emptyCandidates" emptyCandidates _ demoRuntime defaultAppId]
  from hello have a:
    "take 2 (filter isStoreWrite
        (fst (handleSendMessage demoRuntime defaultAppId (okEnv (Resolved helloResponse)) demoState))) =
       [AddDoc demoPath (MessageData (JStr (js ''hi'')) User 1) (Resolved (js ''m1'')),
        AddDoc demoPath (MessageData (JStr (js ''Hello'')) Model 2) (Resolved (js ''m2''))]"
    by (simp add: okEnv_fields hello_text demo_trim demoPath_def)
  from empty have b:
    "take 2 (filter isStoreWrite
        (fst (handleSendMessage demoRuntime defaultAppId (okEnv (Resolved emptyCandidates)) demoState))) =
       [AddDoc demoPath (MessageData (JStr (js ''hi'')) User 1) (Resolved (js ''m1'')),
        AddDoc demoPath (MessageData (JStr fallbackText) Model 2) (Resolved (js ''m2''))]"
    by (simp add: okEnv_fields emptyCandidates_lacks demo_trim demoPath_def)
  show ?thesis
    using demo_accepted okEnv_fields(1,2,3) ok_200 hello_text emptyCandidates_lacks a b
    by (intro conjI)
qed

text \<open>
  Claim C4 as stated fails for an empty body, which \<^verbatim>\<open>response.json()\<close> rejects, and for a
  body whose first candidate is \<^verbatim>\<open>null\<close>: extraction fails in both, and the message written
  is not the fallback text.
\<close>

theorem sendMessage_reply_text_counterexample:
  "filter isStoreWrite (fst (handleSendMessage demoRuntime defaultAppId
       (okEnv (Rejected (ErrorObj (js ''Unexpected end of JSON input'')))) demoState)) =
     [AddDoc demoPath (MessageData (JStr (js ''hi'')) User 1) (Resolved (js ''m1'')),
      AddDoc demoPath (MessageData (JStr (js ''Error: Unexpected end of JSON input'')) Model 3)
        (Resolved (js ''m3''))]
   \<and> js ''Error: Unexpected end of JSON input'' \<noteq> fallbackText
   \<and> specFirstCandidateText nullCandidate = None
   \<and> filter isStoreWrite (fst (handleSendMessage demoRuntime defaultAppId
       (okEnv (Resolved nullCandidate)) demoState)) =
     [AddDoc demoPath (MessageData (JStr (js ''hi'')) User 1) (Resolved (js ''m1'')),
      AddDoc demoPath
        (MessageData (JStr (js ''Error: Cannot read properties of null (reading ''
                            @ [0x27] @ js ''content'' @ [0x27] @ js '')'')) Model 3)
        (Resolved (js ''m3''))]
   \<and> js ''Error: Cannot read properties of null (reading '' @ [0x27] @ js ''content'' @ [0x27] @ js '')''
       \<noteq> fallbackText"
proof -
  have a: "filter isStoreWrite (fst (handleSendMessage demoRuntime defaultAppId
       (okEnv (Rejected (ErrorObj (js ''Unexpected end of JSON input'')))) demoState)) =
     [AddDoc demoPath (MessageData (JStr (js ''hi'')) User 1) (Resolved (js ''m1'')),
      AddDoc demoPath (MessageData (JStr (js ''Error: Unexpected end of JSON input'')) Model 3)
        (Resolved (js ''m3''))]"
    using writes_thrown [OF demo_accepted okEnv_fields(1),
        of demoRuntime "Rejected (ErrorObj (js ''Unexpected end of JSON input''))" defaultAppId
           "ErrorObj (js ''Unexpected end of JSON input'')"]
    by (simp add: tryBlock_def okEnv_fields ok_200 demo_trim demoPath_def userMessage_def errorMessage_def)
       (simp add: js_def)
  have b: "filter isStoreWrite (fst (handleSendMessage demoRuntime defaultAppId
       (okEnv (Resolved nullCandidate)) demoState)) =
     [AddDoc demoPath (MessageData (JStr (js ''hi'')) User 1) (Resolved (js ''m1'')),
      AddDoc demoPath
        (MessageData (JStr (js ''Error: Cannot read properties of null (reading ''
                            @ [0x27] @ js ''content'' @ [0x27] @ js '')'')) Model 3)
        (Resolved (js ''m3''))]"
    using writes_thrown [OF demo_accepted okEnv_fields(1),
        of demoRuntime "Resolved nullCandidate" defaultAppId
           "ErrorObj (typeErrorMessage demoRuntime (CannotRead JNull Content))"]
    by (simp add: tryBlock_def okEnv_fields ok_200 nullCandidate_throws demo_type_error
        demo_trim demoPath_def userMessage_def errorMessage_def)
       (simp add: js_def)
  have c: "js ''Error: Unexpected end of JSON input'' \<noteq> fallbackText"
    by (simp add: fallbackText_def js_def)
  have d: "js ''Error: Cannot read properties of null (reading '' @ [0x27] @ js ''content'' @ [0x27] @ js '')''
       \<noteq> fallbackText"
    by (simp add: fallbackText_def js_def)
  have e: "specFirstCandidateText nullCandidate = None"
    by (simp add: specFirstCandidateText_def nullCandidate_def js_def)
  show ?thesis using a b c d e by (intro conjI)
qed


section \<open>The completion request\<close>

text \<open>A push of the messages listener is in ascending order of timestamp.\<close>

lemma messagesSnapshot_sorted: "sorted (map msg_timestamp (messagesSnapshot store p))"
  by (simp add: messagesSnapshot_def)

lemma tryBlock_fetches:
  "filter isFetch (fst (tryBlock rt env p ms ui)) = [Fetch apiUrl \<lparr>contents = chatHistory ms ui\<rparr> (fetch_result env)]"
  by (simp add: tryBlock_def Let_def split: outcome.splits sum.splits)

lemma tryBlock_no_SetInput: "filter isSetInput (fst (tryBlock rt env p ms ui)) = []"
  by (simp add: tryBlock_def Let_def split: outcome.splits sum.splits)

lemma input_run_no_SetInput: "filter isSetInput acts = [] \<Longrightarrow> input (run acts s) = input s"
proof (induction acts arbitrary: s)
  case Nil
  then show ?case by (simp add: run_Nil)
next
  case (Cons a acts)
  from Cons.prems have rest: "filter isSetInput acts = []" and a: "\<not> isSetInput a"
    by (auto split: if_splits)
  have "input (apply_action a s) = input s"
    using a by (cases "(a, s)" rule: apply_action.cases) auto
  with Cons.IH [OF rest] show ?case by (simp add: run_Cons)
qed

text \<open>
  Claim C7. An accepted call sends at most one completion request: none when the store
  rejects the user message, one otherwise. Its body is \<^verbatim>\<open>{contents: [...]}\<close> with one
  \<^verbatim>\<open>{role, parts: [{text}]}\<close> for each message of the cache, in the order of the cache (the order
  of the last push: ascending timestamp), followed by one for the new user message, whose
  text is the text of the user message handed to the store first.
\<close>

theorem sendMessage_payload:
  assumes acc: "sendAccepted s u c"
  shows "filter isFetch (fst (handleSendMessage rt appId env s)) =
           (case user_write env of
              Resolved i \<Rightarrow>
                [Fetch apiUrl
                   \<lparr>contents =
                      map (\<lambda>m. \<lparr>c_role = msg_role m, parts = [\<lparr>p_text = msg_text m\<rparr>]\<rparr>) (messages s)
                      @ [\<lparr>c_role = User, parts = [\<lparr>p_text = JStr (trim (input s))\<rparr>]\<rparr>]\<rparr>
                   (fetch_result env)]
            | Rejected e \<Rightarrow> [])
         \<and> hd (filter isStoreWrite (fst (handleSendMessage rt appId env s))) =
             AddDoc (messagesCollectionPath appId u c)
               (MessageData (JStr (trim (input s))) User (now_user env)) (user_write env)"
  by (simp add: handleSendMessage_accepted [OF acc] sendPipeline_trace tryBlock_fetches chatHistory_def
      userMessage_def split: outcome.splits option.splits)

lemma history_accepted: "sendAccepted historyState demoUser (js ''c1'')"
  using demo_accepted by (simp add: sendAccepted_def historyState_def)

theorem sendMessage_payload_witness:
  "sendAccepted historyState demoUser (js ''c1'')
   \<and> filter isFetch (fst (handleSendMessage demoRuntime defaultAppId demoEnv historyState)) =
       [Fetch apiUrl
          \<lparr>contents =
             [\<lparr>c_role = User, parts = [\<lparr>p_text = JStr (js ''ping'')\<rparr>]\<rparr>,
              \<lparr>c_role = Model, parts = [\<lparr>p_text = JStr (js ''pong'')\<rparr>]\<rparr>,
              \<lparr>c_role = User, parts = [\<lparr>p_text = JStr (js ''hi'')\<rparr>]\<rparr>]\<rparr>
          (Resolved \<lparr>status = 500\<rparr>)]"
proof -
  have t: "trim (input historyState) = js ''hi''"
    using demo_trim by (simp add: historyState_def)
  have m: "messages historyState =
       [\<lparr>msg_id = js ''m8'', msg_text = JStr (js ''ping''), msg_role = User, msg_timestamp = 0\<rparr>,
        \<lparr>msg_id = js ''m9'', msg_text = JStr (js ''pong''), msg_role = Model, msg_timestamp = 0\<rparr>]"
    by (simp add: historyState_def)
  from sendMessage_payload [OF history_accepted, of demoRuntime defaultAppId demoEnv]
  have "filter isFetch (fst (handleSendMessage demoRuntime defaultAppId demoEnv historyState)) =
       [Fetch apiUrl
          \<lparr>contents =
             [\<lparr>c_role = User, parts = [\<lparr>p_text = JStr (js ''ping'')\<rparr>]\<rparr>,
              \<lparr>c_role = Model, parts = [\<lparr>p_text = JStr (js ''pong'')\<rparr>]\<rparr>,
              \<lparr>c_role = User, parts = [\<lparr>p_text = JStr (js ''hi'')\<rparr>]\<rparr>]\<rparr>
          (Resolved \<lparr>status = 500\<rparr>)]"
    by (simp add: t m demoEnv_fields)
  with history_accepted show ?thesis by (intro conjI)
qed

section \<open>The input box\<close>

text \<open>
  Claim C9. An accepted call clears the input text first: \<^verbatim>\<open>setInput("")\<close> comes before the
  write of the user message, so the input is empty when that write is issued. It is the
  only \<^verbatim>\<open>setInput\<close> of the call, so the input is empty at the end whatever the store and the
  completion endpoint answer.
\<close>

theorem sendMessage_clears_input:
  assumes acc: "sendAccepted s u c"
  shows "take 3 (fst (handleSendMessage rt appId env s)) =
           [SetInput [], SetIsLoading True,
            AddDoc (messagesCollectionPath appId u c)
              (MessageData (JStr (trim (input s))) User (now_user env)) (user_write env)]
         \<and> input (run (take 2 (fst (handleSendMessage rt appId env s))) s) = []
         \<and> filter isSetInput (fst (handleSendMessage rt appId env s)) = [SetInput []]
         \<and> input (run (fst (handleSendMessage rt appId env s)) s) = []"
proof -
  obtain rest where
    tr: "fst (handleSendMessage rt appId env s) =
           SetInput [] # SetIsLoading True #
           AddDoc (messagesCollectionPath appId u c)
             (MessageData (JStr (trim (input s))) User (now_user env)) (user_write env) # rest"
    and rest: "filter isSetInput rest = []"
    by (simp add: handleSendMessage_accepted [OF acc] sendPipeline_trace userMessage_def
        tryBlock_no_SetInput split: outcome.splits option.splits)
  have tail: "filter isSetInput (SetIsLoading True #
           AddDoc (messagesCollectionPath appId u c)
             (MessageData (JStr (trim (input s))) User (now_user env)) (user_write env) # rest) = []"
    using rest by simp
  have "input (run (fst (handleSendMessage rt appId env s)) s) = []"
    unfolding tr run_Cons [of "SetInput []"] input_run_no_SetInput [OF tail] by simp
  moreover have "input (run (take 2 (fst (handleSendMessage rt appId env s))) s) = []"
    unfolding tr by (simp add: run_Cons run_Nil)
  ultimately show ?thesis
    unfolding tr using rest by simp
qed

theorem sendMessage_clears_input_witness:
  "sendAccepted demoState demoUser (js ''c1'')
   \<and> input demoState = js '' hi ''
   \<and> input (run (fst (handleSendMessage demoRuntime defaultAppId demoEnv demoState)) demoState) = []
   \<and> input (run (fst (handleSendMessage demoRuntime defaultAppId
        (demoEnv\<lparr>user_write := Rejected permissionDenied\<rparr>) demoState)) demoState) = []"
proof -
  from sendMessage_clears_input [OF demo_accepted, of demoRuntime defaultAppId demoEnv]
  have a: "input (run (fst (handleSendMessage demoRuntime defaultAppId demoEnv demoState)) demoState) = []"
    by blast
  from sendMessage_clears_input [OF demo_accepted, of demoRuntime defaultAppId "demoEnv\<lparr>user_write := Rejected permissionDenied\<rparr>"]
  have b: "input (run (fst (handleSendMessage demoRuntime defaultAppId
        (demoEnv\<lparr>user_write := Rejected permissionDenied\<rparr>) demoState)) demoState) = []"
    by blast
  have c: "input demoState = js '' hi ''" by (simp add: demoState_def)
  show ?thesis using demo_accepted a b c by (intro conjI)
qed


section \<open>The thread list\<close>

lemma handleNewChat_trace:
  "user s = Some u \<Longrightarrow>
   handleNewChat appId env s =
     [SetIsLoading True,
      AddDoc (chatsCollectionPath appId u) (ChatData (js ''New Chat'') (nc_now env)) (nc_write env),
      (case nc_write env of Resolved i \<Rightarrow> SetActiveChatId (Some i) | Rejected e \<Rightarrow> ConsoleError),
      SetIsLoading False]"
  by (simp add: handleNewChat_def split: outcome.splits)

lemma chatsSnapshot_Nil_iff: "chatsSnapshot store p = [] \<longleftrightarrow> List.map_filter toChat (store p) = []"
proof -
  have "length (chatsSnapshot store p) = length (List.map_filter toChat (store p))"
    by (simp add: chatsSnapshot_def)
  then show ?thesis by (metis length_0_conv)
qed

lemma chats_onChatsSnapshot:
  "chats (run (onChatsSnapshot appId env s fetched) s0) = fetched"
  by (cases fetched)
     (simp_all add: onChatsSnapshot_def handleNewChat_def run_Cons run_Nil
        split: option.splits outcome.splits)

text \<open>
  Claim C5, as amended. Every push of the chats listener replaces the cache by the pushed
  list. On an empty push the callback calls \<^verbatim>\<open>handleNewChat\<close>, which asks the store for a new
  chat titled \<open>New Chat\<close> with the current time. When the store accepts that write, the
  user's collection holds a chat, and the push that follows leaves a non-empty cache.
\<close>

theorem chatsSnapshot_default_chat:
  assumes sub: "chatsSubscribed s" and u: "user s = Some u"
  shows "chats (run (onChatsSnapshot appId env s fetched) s) = fetched
         \<and> (fetched = [] \<longrightarrow>
              take 3 (onChatsSnapshot appId env s fetched) =
                [SetChats [], SetIsLoading True,
                 AddDoc (chatsCollectionPath appId u) (ChatData (js ''New Chat'') (nc_now env)) (nc_write env)])
         \<and> (fetched = [] \<and> nc_write env = Resolved i \<longrightarrow>
              chatsSnapshot (db (run (onChatsSnapshot appId env s fetched) s)) (chatsCollectionPath appId u) \<noteq> []
              \<and> chats (run (onChatsSnapshot appId env' (run (onChatsSnapshot appId env s fetched) s)
                               (chatsSnapshot (db (run (onChatsSnapshot appId env s fetched) s))
                                  (chatsCollectionPath appId u)))
                          (run (onChatsSnapshot appId env s fetched) s)) \<noteq> [])"
proof (intro conjI impI)
  show "chats (run (onChatsSnapshot appId env s fetched) s) = fetched"
    by (rule chats_onChatsSnapshot)
next
  assume "fetched = []"
  then show "take 3 (onChatsSnapshot appId env s fetched) =
                [SetChats [], SetIsLoading True,
                 AddDoc (chatsCollectionPath appId u) (ChatData (js ''New Chat'') (nc_now env)) (nc_write env)]"
    by (simp add: onChatsSnapshot_def handleNewChat_trace [OF u])
next
  assume a: "fetched = [] \<and> nc_write env = Resolved i"
  have stored: "db (run (onChatsSnapshot appId env s fetched) s) (chatsCollectionPath appId u) =
      db s (chatsCollectionPath appId u) @ [(i, ChatData (js ''New Chat'') (nc_now env))]"
    using a by (simp add: onChatsSnapshot_def handleNewChat_trace [OF u] run_Cons run_Nil)
  show "chatsSnapshot (db (run (onChatsSnapshot appId env s fetched) s)) (chatsCollectionPath appId u) \<noteq> []"
    by (simp add: chatsSnapshot_Nil_iff stored map_filter_def)
  then show "chats (run (onChatsSnapshot appId env' (run (onChatsSnapshot appId env s fetched) s)
                               (chatsSnapshot (db (run (onChatsSnapshot appId env s fetched) s))
                                  (chatsCollectionPath appId u)))
                          (run (onChatsSnapshot appId env s fetched) s)) \<noteq> []"
    by (simp add: chats_onChatsSnapshot)
qed

lemma emptyState_user: "user emptyState = Some demoUser"
  by (simp add: emptyState_def demoState_def)

lemma emptyState_subscribed: "chatsSubscribed emptyState"
  by (simp add: chatsSubscribed_def emptyState_def demoState_def)

text \<open>An empty push to a user without chats, with a store that accepts the new chat.\<close>

theorem chatsSnapshot_default_chat_witness:
  "chatsSubscribed emptyState \<and> user emptyState = Some demoUser
   \<and> nc_write createOk = Resolved (js ''c2'')
   \<and> take 3 (onChatsSnapshot defaultAppId createOk emptyState []) =
        [SetChats [], SetIsLoading True, AddDoc demoChatsPath (ChatData (js ''New Chat'') 7) (Resolved (js ''c2''))]
   \<and> chatsSnapshot (db (run (onChatsSnapshot defaultAppId createOk emptyState []) emptyState)) demoChatsPath \<noteq> []"
proof -
  have w: "nc_write createOk = Resolved (js ''c2'')" by (simp add: createOk_def)
  have n: "nc_now createOk = 7" by (simp add: createOk_def)
  note run = chatsSnapshot_default_chat
    [OF emptyState_subscribed emptyState_user, of defaultAppId createOk "[]" "js ''c2''"]
  from run have a: "take 3 (onChatsSnapshot defaultAppId createOk emptyState []) =
        [SetChats [], SetIsLoading True, AddDoc demoChatsPath (ChatData (js ''New Chat'') 7) (Resolved (js ''c2''))]"
    by (simp add: w n demoChatsPath_def)
  from run have b: "chatsSnapshot (db (run (onChatsSnapshot defaultAppId createOk emptyState []) emptyState))
      demoChatsPath \<noteq> []"
    by (simp add: w demoChatsPath_def)
  show ?thesis using emptyState_subscribed emptyState_user w a b by (intro conjI)
qed

text \<open>
  Claim C5 as stated fails when the store rejects the new chat: \<^verbatim>\<open>handleNewChat\<close> logs the
  error and stops, the user's collection stays empty, and so does the cache.
\<close>

theorem chatsSnapshot_default_chat_counterexample:
  "chatsSubscribed emptyState
   \<and> onChatsSnapshot defaultAppId createDenied emptyState [] =
       [SetChats [], SetIsLoading True,
        AddDoc demoChatsPath (ChatData (js ''New Chat'') 7) (Rejected permissionDenied),
        ConsoleError, SetIsLoading False]
   \<and> db (run (onChatsSnapshot defaultAppId createDenied emptyState []) emptyState) demoChatsPath = []
   \<and> chatsSnapshot (db (run (onChatsSnapshot defaultAppId createDenied emptyState []) emptyState)) demoChatsPath = []
   \<and> chats (run (onChatsSnapshot defaultAppId createDenied emptyState []) emptyState) = []"
proof -
  have tr: "onChatsSnapshot defaultAppId createDenied emptyState [] =
       [SetChats [], SetIsLoading True,
        AddDoc demoChatsPath (ChatData (js ''New Chat'') 7) (Rejected permissionDenied),
        ConsoleError, SetIsLoading False]"
    by (simp add: onChatsSnapshot_def handleNewChat_trace [OF emptyState_user] createDenied_def demoChatsPath_def)
  have d: "db (run (onChatsSnapshot defaultAppId createDenied emptyState []) emptyState) demoChatsPath = []"
    unfolding tr by (simp add: run_Cons run_Nil emptyState_def demoState_def)
  have q: "chatsSnapshot (db (run (onChatsSnapshot defaultAppId createDenied emptyState []) emptyState))
      demoChatsPath = []"
    by (simp add: chatsSnapshot_Nil_iff d map_filter_def)
  have c: "chats (run (onChatsSnapshot defaultAppId createDenied emptyState []) emptyState) = []"
    by (rule chats_onChatsSnapshot)
  show ?thesis using emptyState_subscribed tr d q c by (intro conjI)
qed

section \<open>Deleting a chat\<close>

lemma find_filter: "List.find P xs = (case filter P xs of [] \<Rightarrow> None | x # ys \<Rightarrow> Some x)"
  by (induction xs) auto

lemma activeChatId_run_delete:
  "activeChatId (run (handleDeleteChat appId del chatId s) s) =
     (case user s of
        None \<Rightarrow> activeChatId s
      | Some u \<Rightarrow>
          (case del of
             Resolved x \<Rightarrow>
               if activeChatId s = Some chatId
               then map_option chat_id (List.find (\<lambda>c. chat_id c \<noteq> chatId) (chats s))
               else activeChatId s
           | Rejected e \<Rightarrow> activeChatId s))"
  by (simp add: handleDeleteChat_def run_Cons run_Nil find_filter Let_def
      split: option.splits outcome.splits list.splits)

text \<open>
  Claim C6, as amended. When a user is signed in and the store deletes the document, deleting
  the selected chat selects the first chat of the cached list whose id is not the deleted
  one, or nothing when the list has no other chat. Deleting a chat that is not selected
  leaves the selection as it is, whatever the store answers.
\<close>

theorem deleteChat_selection:
  "(user s = Some u \<and> del = Resolved () \<and> activeChatId s = Some chatId \<longrightarrow>
      activeChatId (run (handleDeleteChat appId del chatId s) s) =
        map_option chat_id (List.find (\<lambda>c. chat_id c \<noteq> chatId) (chats s)))
   \<and> (activeChatId s \<noteq> Some chatId \<longrightarrow>
      activeChatId (run (handleDeleteChat appId del chatId s) s) = activeChatId s)"
proof (intro conjI impI)
  assume "user s = Some u \<and> del = Resolved () \<and> activeChatId s = Some chatId"
  then show "activeChatId (run (handleDeleteChat appId del chatId s) s) =
        map_option chat_id (List.find (\<lambda>c. chat_id c \<noteq> chatId) (chats s))"
    by (simp add: activeChatId_run_delete)
next
  assume "activeChatId s \<noteq> Some chatId"
  then show "activeChatId (run (handleDeleteChat appId del chatId s) s) = activeChatId s"
    by (simp add: activeChatId_run_delete split: option.splits outcome.splits)
qed

lemma threeChats_fields:
  "user threeChats = Some demoUser" "activeChatId threeChats = Some (js ''b'')"
  "chats threeChats = [chatA, chatB, chatC]"
  by (simp_all add: threeChats_def demoState_def)

lemma oneChat_fields:
  "user oneChat = Some demoUser" "activeChatId oneChat = Some (js ''b'')"
  "chats oneChat = [chatB]"
  by (simp_all add: oneChat_def demoState_def)

lemma chat_ids: "chat_id chatA = js ''a''" "chat_id chatB = js ''b''" "chat_id chatC = js ''c''"
  by (simp_all add: chatA_def chatB_def chatC_def)

lemma ids_differ: "js ''a'' \<noteq> js ''b''" "js ''b'' \<noteq> js ''c''" "js ''a'' \<noteq> js ''c''"
  by (simp_all add: js_def)

text \<open>
  Deleting the selected chat \<open>b\<close> of \<open>a, b, c\<close> selects \<open>a\<close>, the head of what remains;
  deleting the only chat selects nothing; deleting the unselected \<open>c\<close> changes nothing.
\<close>

theorem deleteChat_selection_witness:
  "user threeChats = Some demoUser \<and> activeChatId threeChats = Some (js ''b'')
   \<and> chats threeChats = [chatA, chatB, chatC]
   \<and> activeChatId (run (handleDeleteChat defaultAppId (Resolved ()) (js ''b'') threeChats) threeChats)
       = Some (js ''a'')
   \<and> activeChatId (run (handleDeleteChat defaultAppId (Resolved ()) (js ''b'') oneChat) oneChat) = None
   \<and> activeChatId threeChats \<noteq> Some (js ''c'')
   \<and> activeChatId (run (handleDeleteChat defaultAppId (Resolved ()) (js ''c'') threeChats) threeChats)
       = Some (js ''b'')"
proof -
  from deleteChat_selection [of threeChats demoUser "Resolved ()" "js ''b''" defaultAppId]
  have a: "activeChatId (run (handleDeleteChat defaultAppId (Resolved ()) (js ''b'') threeChats) threeChats)
       = Some (js ''a'')"
    using ids_differ by (simp add: threeChats_fields chat_ids)
  from deleteChat_selection [of oneChat demoUser "Resolved ()" "js ''b''" defaultAppId]
  have b: "activeChatId (run (handleDeleteChat defaultAppId (Resolved ()) (js ''b'') oneChat) oneChat) = None"
    by (simp add: oneChat_fields chat_ids)
  have n: "activeChatId threeChats \<noteq> Some (js ''c'')"
    using ids_differ by (simp add: threeChats_fields)
  from deleteChat_selection [of threeChats demoUser "Resolved ()" "js ''c''" defaultAppId] n
  have c: "activeChatId (run (handleDeleteChat defaultAppId (Resolved ()) (js ''c'') threeChats) threeChats)
       = Some (js ''b'')"
    by (simp add: threeChats_fields)
  show ?thesis using threeChats_fields a b n c by (intro conjI)
qed

text \<open>
  Claim C6 as stated fails twice on \<open>a, b, c\<close> with \<open>b\<close> selected. When the store rejects the
  deletion, the \<^verbatim>\<open>catch\<close> block logs the error and \<open>b\<close> stays selected. When the store deletes
  \<open>b\<close>, the selection becomes \<open>a\<close>, the head of the remaining list, and not \<open>c\<close>, the chat that
  comes next after \<open>b\<close> in list order.
\<close>

theorem deleteChat_selection_counterexample:
  "user threeChats = Some demoUser \<and> activeChatId threeChats = Some (js ''b'')
   \<and> chats threeChats = [chatA, chatB, chatC]
   \<and> chat_id chatA = js ''a'' \<and> chat_id chatB = js ''b'' \<and> chat_id chatC = js ''c''
   \<and> handleDeleteChat defaultAppId (Rejected permissionDenied) (js ''b'') threeChats =
       [DeleteDoc (demoChatsPath @ js ''/'' @ js ''b'') (Rejected permissionDenied), ConsoleError]
   \<and> activeChatId (run (handleDeleteChat defaultAppId (Rejected permissionDenied) (js ''b'') threeChats)
        threeChats) = Some (js ''b'')
   \<and> handleDeleteChat defaultAppId (Resolved ()) (js ''b'') threeChats =
       [DeleteDoc (demoChatsPath @ js ''/'' @ js ''b'') (Resolved ()), SetActiveChatId (Some (js ''a''))]
   \<and> activeChatId (run (handleDeleteChat defaultAppId (Resolved ()) (js ''b'') threeChats) threeChats)
       = Some (js ''a'')
   \<and> js ''a'' \<noteq> js ''c''"
proof -
  have tr: "handleDeleteChat defaultAppId (Rejected permissionDenied) (js ''b'') threeChats =
       [DeleteDoc (demoChatsPath @ js ''/'' @ js ''b'') (Rejected permissionDenied), ConsoleError]"
    by (simp add: handleDeleteChat_def threeChats_fields demoChatsPath_def)
  have sel: "activeChatId (run (handleDeleteChat defaultAppId (Rejected permissionDenied) (js ''b'') threeChats)
        threeChats) = Some (js ''b'')"
    by (simp add: activeChatId_run_delete threeChats_fields)
  have tr2: "handleDeleteChat defaultAppId (Resolved ()) (js ''b'') threeChats =
       [DeleteDoc (demoChatsPath @ js ''/'' @ js ''b'') (Resolved ()), SetActiveChatId (Some (js ''a''))]"
    using ids_differ by (simp add: handleDeleteChat_def threeChats_fields demoChatsPath_def chat_ids)
  have sel2: "activeChatId (run (handleDeleteChat defaultAppId (Resolved ()) (js ''b'') threeChats) threeChats)
       = Some (js ''a'')"
    unfolding tr2 by (simp add: run_Cons run_Nil)
  show ?thesis using threeChats_fields chat_ids tr sel tr2 sel2 ids_differ(3) by (intro conjI)
qed

section \<open>Switching the message listener\<close>

lemma messagesEffect_selected:
  "user s = Some u \<Longrightarrow> activeChatId s = Some a \<Longrightarrow> a \<noteq> [] \<Longrightarrow>
   messagesEffect appId s =
     ([Subscribe (messagesCollectionPath appId u a)], [Unsubscribe (messagesCollectionPath appId u a)])"
  by (simp add: messagesEffect_def)

lemma messagesEffect_body:
  "user s = Some u \<Longrightarrow>
   fst (messagesEffect appId (s\<lparr>activeChatId := b\<rparr>)) =
     (case b of
        None \<Rightarrow> [SetMessages []]
      | Some c \<Rightarrow> if c = [] then [SetMessages []] else [Subscribe (messagesCollectionPath appId u c)])"
  by (simp add: messagesEffect_def split: option.splits)

text \<open>
  Claim C8. Let the chat \<open>a\<close> be selected, with its listener attached by the messages effect.
  When the selection changes to \<open>b\<close>, React runs the cleanup of that effect and then its
  body: the trace starts with the detachment of the listener of \<open>a\<close>, and only then attaches
  the listener of \<open>b\<close>. Afterwards the listener of \<open>a\<close> is gone and at most the one of \<open>b\<close> is
  added. When \<open>b\<close> is no chat at all, no listener is attached and the message cache is cleared.
\<close>

theorem messagesEffect_switch:
  assumes u: "user s = Some u" and a: "activeChatId s = Some a" and ne: "a \<noteq> []"
  shows "fst (useEffectRerun (snd (messagesEffect appId s)) (messagesEffect appId (s\<lparr>activeChatId := b\<rparr>))) =
           Unsubscribe (messagesCollectionPath appId u a) #
           (case b of
              None \<Rightarrow> [SetMessages []]
            | Some c \<Rightarrow> if c = [] then [SetMessages []] else [Subscribe (messagesCollectionPath appId u c)])
         \<and> listeners
              (run (fst (useEffectRerun (snd (messagesEffect appId s))
                           (messagesEffect appId (s\<lparr>activeChatId := b\<rparr>))))
                 ((run (fst (messagesEffect appId s)) s)\<lparr>activeChatId := b\<rparr>)) =
             (case b of
                None \<Rightarrow> listeners s
              | Some c \<Rightarrow> if c = [] then listeners s else messagesCollectionPath appId u c # listeners s)
         \<and> (b = None \<longrightarrow>
              messages
                (run (fst (useEffectRerun (snd (messagesEffect appId s))
                             (messagesEffect appId (s\<lparr>activeChatId := b\<rparr>))))
                   ((run (fst (messagesEffect appId s)) s)\<lparr>activeChatId := b\<rparr>)) = [])"
  by (simp add: useEffectRerun_def messagesEffect_selected [OF u a ne] messagesEffect_body [OF u]
      run_Cons run_Nil split: option.splits)

lemma demoState_sel:
  "user demoState = Some demoUser" "activeChatId demoState = Some (js ''c1'')" "js ''c1'' \<noteq> []"
  "listeners demoState = []"
  by (simp_all add: demoState_def js_def)

theorem messagesEffect_switch_witness:
  "user demoState = Some demoUser \<and> activeChatId demoState = Some (js ''c1'') \<and> js ''c1'' \<noteq> []
   \<and> fst (useEffectRerun (snd (messagesEffect defaultAppId demoState))
            (messagesEffect defaultAppId (demoState\<lparr>activeChatId := Some (js ''c2'')\<rparr>))) =
        [Unsubscribe demoPath, Subscribe (messagesCollectionPath defaultAppId demoUser (js ''c2''))]
   \<and> listeners
        (run (fst (useEffectRerun (snd (messagesEffect defaultAppId demoState))
                     (messagesEffect defaultAppId (demoState\<lparr>activeChatId := Some (js ''c2'')\<rparr>))))
           ((run (fst (messagesEffect defaultAppId demoState)) demoState)\<lparr>activeChatId := Some (js ''c2'')\<rparr>)) =
        [messagesCollectionPath defaultAppId demoUser (js ''c2'')]
   \<and> fst (useEffectRerun (snd (messagesEffect defaultAppId demoState))
            (messagesEffect defaultAppId (demoState\<lparr>activeChatId := None\<rparr>))) =
        [Unsubscribe demoPath, SetMessages []]
   \<and> messages
        (run (fst (useEffectRerun (snd (messagesEffect defaultAppId demoState))
                     (messagesEffect defaultAppId (demoState\<lparr>activeChatId := None\<rparr>))))
           ((run (fst (messagesEffect defaultAppId demoState)) demoState)\<lparr>activeChatId := None\<rparr>)) = []"
proof -
  have c2: "js ''c2'' \<noteq> []" by (simp add: js_def)
  note switch = messagesEffect_switch [OF demoState_sel(1) demoState_sel(2) demoState_sel(3), of defaultAppId "Some (js ''c2'')"]
  note leave = messagesEffect_switch [OF demoState_sel(1) demoState_sel(2) demoState_sel(3), of defaultAppId None]
  from switch [THEN conjunct1] c2 have a:
    "fst (useEffectRerun (snd (messagesEffect defaultAppId demoState))
            (messagesEffect defaultAppId (demoState\<lparr>activeChatId := Some (js ''c2'')\<rparr>))) =
        [Unsubscribe demoPath, Subscribe (messagesCollectionPath defaultAppId demoUser (js ''c2''))]"
    by (simp add: demoPath_def)
  from switch [THEN conjunct2, THEN conjunct1] c2 have b:
    "listeners
        (run (fst (useEffectRerun (snd (messagesEffect defaultAppId demoState))
                     (messagesEffect defaultAppId (demoState\<lparr>activeChatId := Some (js ''c2'')\<rparr>))))
           ((run (fst (messagesEffect defaultAppId demoState)) demoState)\<lparr>activeChatId := Some (js ''c2'')\<rparr>)) =
        [messagesCollectionPath defaultAppId demoUser (js ''c2'')]"
    by (simp add: demoState_sel(4))
  from leave [THEN conjunct1] have c:
    "fst (useEffectRerun (snd (messagesEffect defaultAppId demoState))
            (messagesEffect defaultAppId (demoState\<lparr>activeChatId := None\<rparr>))) =
        [Unsubscribe demoPath, SetMessages []]"
    by (simp add: demoPath_def)
  from leave [THEN conjunct2, THEN conjunct2] have d:
    "messages
        (run (fst (useEffectRerun (snd (messagesEffect defaultAppId demoState))
                     (messagesEffect defaultAppId (demoState\<lparr>activeChatId := None\<rparr>))))
           ((run (fst (messagesEffect defaultAppId demoState)) demoState)\<lparr>activeChatId := None\<rparr>)) = []"
    by simp
  show ?thesis using demoState_sel(1,2,3) a b c d by (intro conjI)
qed

lemma messagesCollectionPath_inj:
  "messagesCollectionPath appId u a = messagesCollectionPath appId u b \<longleftrightarrow> a = b"
  by (simp add: messagesCollectionPath_def)

text \<open>
  After such a switch a push for the old chat finds no listener: the callback is not called,
  and the cache of the new chat is not touched.
\<close>

theorem stale_push_discarded:
  assumes u: "user s = Some u" and a: "activeChatId s = Some a" and ne: "a \<noteq> []"
    and fresh: "messagesCollectionPath appId u a \<notin> set (listeners s)"
    and other: "b \<noteq> Some a"
  shows "onMessagesSnapshot (messagesCollectionPath appId u a) fetchedMessages
           (run (fst (useEffectRerun (snd (messagesEffect appId s))
                        (messagesEffect appId (s\<lparr>activeChatId := b\<rparr>))))
              ((run (fst (messagesEffect appId s)) s)\<lparr>activeChatId := b\<rparr>)) = []"
proof -
  have "listeners
          (run (fst (useEffectRerun (snd (messagesEffect appId s))
                       (messagesEffect appId (s\<lparr>activeChatId := b\<rparr>))))
             ((run (fst (messagesEffect appId s)) s)\<lparr>activeChatId := b\<rparr>)) =
        (case b of
           None \<Rightarrow> listeners s
         | Some c \<Rightarrow> if c = [] then listeners s else messagesCollectionPath appId u c # listeners s)"
    by (simp add: useEffectRerun_def messagesEffect_selected [OF u a ne] messagesEffect_body [OF u]
        run_Cons run_Nil split: option.splits)
  then show ?thesis
    using fresh other by (auto simp: onMessagesSnapshot_def messagesCollectionPath_inj split: option.splits)
qed

theorem stale_push_discarded_witness:
  "user demoState = Some demoUser \<and> activeChatId demoState = Some (js ''c1'') \<and> js ''c1'' \<noteq> []
   \<and> demoPath \<notin> set (listeners demoState) \<and> Some (js ''c2'') \<noteq> Some (js ''c1'')
   \<and> onMessagesSnapshot demoPath (messages historyState)
        (run (fst (useEffectRerun (snd (messagesEffect defaultAppId demoState))
                     (messagesEffect defaultAppId (demoState\<lparr>activeChatId := Some (js ''c2'')\<rparr>))))
           ((run (fst (messagesEffect defaultAppId demoState)) demoState)\<lparr>activeChatId := Some (js ''c2'')\<rparr>)) = []"
proof -
  have fresh: "messagesCollectionPath defaultAppId demoUser (js ''c1'') \<notin> set (listeners demoState)"
    by (simp add: demoState_sel(4))
  have other: "Some (js ''c2'') \<noteq> Some (js ''c1'')" by (simp add: js_def)
  from stale_push_discarded [OF demoState_sel(1) demoState_sel(2) demoState_sel(3) fresh other,
      of "messages historyState"]
  have "onMessagesSnapshot demoPath (messages historyState)
        (run (fst (useEffectRerun (snd (messagesEffect defaultAppId demoState))
                     (messagesEffect defaultAppId (demoState\<lparr>activeChatId := Some (js ''c2'')\<rparr>))))
           ((run (fst (messagesEffect defaultAppId demoState)) demoState)\<lparr>activeChatId := Some (js ''c2'')\<rparr>)) = []"
    by (simp add: demoPath_def)
  moreover have "demoPath \<notin> set (listeners demoState)" using fresh by (simp add: demoPath_def)
  ultimately show ?thesis using demoState_sel(1,2,3) other by (intro conjI)
qed

section \<open>One loading flag for two pipelines\<close>

lemma handleSendMessage_busy: "isLoading s \<Longrightarrow> handleSendMessage rt appId env s = ([], Resolved ())"
  by (simp add: handleSendMessage_def split: option.splits)

lemma isLoading_apply_nonflag:
  "isLoading (apply_action (AddDoc p d w) s) = isLoading s"
  "isLoading (apply_action (SetActiveChatId x) s) = isLoading s"
  "isLoading (apply_action ConsoleError s) = isLoading s"
  "isLoading (apply_action (SetChats cs) s) = isLoading s"
  by (cases w; simp)+

lemma newChat_in_flight:
  assumes u: "user s = Some u" and k: "0 < k" "k < 4"
  shows "isLoading (run (take k (handleNewChat appId env s)) s)"
proof -
  from k have "k = 1 \<or> k = 2 \<or> k = 3" by arith
  then show ?thesis
    by (auto simp: handleNewChat_trace [OF u] run_Cons run_Nil isLoading_apply_nonflag
        numeral_2_eq_2 numeral_3_eq_3 split: outcome.splits)
qed

lemma autoCreate_in_flight:
  assumes u: "user s = Some u" and k: "1 < k" "k < 5"
  shows "isLoading (run (take k (onChatsSnapshot appId env s [])) s)"
proof -
  from k have "k = 2 \<or> k = 3 \<or> k = 4" by arith
  then show ?thesis
    by (auto simp: onChatsSnapshot_def handleNewChat_trace [OF u] run_Cons run_Nil isLoading_apply_nonflag
        numeral_2_eq_2 numeral_3_eq_3 eval_nat_numeral split: outcome.splits)
qed

lemma isLoading_run_keeps:
  "isLoading s \<Longrightarrow> SetIsLoading False \<notin> set acts \<Longrightarrow> isLoading (run acts s)"
proof (induction acts arbitrary: s)
  case Nil
  then show ?case by (simp add: run_Nil)
next
  case (Cons a acts)
  from Cons.prems have a: "a \<noteq> SetIsLoading False" and rest: "SetIsLoading False \<notin> set acts"
    by auto
  have "isLoading (apply_action a s)"
    using Cons.prems(1) a by (cases "(a, s)" rule: apply_action.cases) auto
  from Cons.IH [OF this rest] show ?case by (simp add: run_Cons)
qed

text \<open>
  Claim C10, as amended. With a user signed in, \<^verbatim>\<open>handleNewChat\<close> does four things: it sets the
  loading flag, issues its one store write, handles the outcome, and clears the flag. At
  every point in between, and after any other actions that do not clear the flag, the flag
  is set, so \<^verbatim>\<open>handleSendMessage\<close> called there does nothing. The same holds for the creation
  that an empty snapshot of the chats listener starts.
\<close>

theorem newChat_shares_loading_flag:
  assumes u: "user s = Some u"
  shows "take 2 (handleNewChat appId env s) =
           [SetIsLoading True,
            AddDoc (chatsCollectionPath appId u) (ChatData (js ''New Chat'') (nc_now env)) (nc_write env)]
         \<and> length (handleNewChat appId env s) = 4
         \<and> last (handleNewChat appId env s) = SetIsLoading False
         \<and> filter isStoreWrite (handleNewChat appId env s) =
             [AddDoc (chatsCollectionPath appId u) (ChatData (js ''New Chat'') (nc_now env)) (nc_write env)]
         \<and> isLoading (run (handleNewChat appId env s) s) = False
         \<and> (\<forall>k other. 0 < k \<and> k < 4 \<and> SetIsLoading False \<notin> set other \<longrightarrow>
               isLoading (run other (run (take k (handleNewChat appId env s)) s))
               \<and> handleSendMessage rt appId senv (run other (run (take k (handleNewChat appId env s)) s))
                   = ([], Resolved ()))
         \<and> (\<forall>k other. 1 < k \<and> k < 5 \<and> SetIsLoading False \<notin> set other \<longrightarrow>
               isLoading (run other (run (take k (onChatsSnapshot appId env s [])) s))
               \<and> handleSendMessage rt appId senv (run other (run (take k (onChatsSnapshot appId env s [])) s))
                   = ([], Resolved ()))"
proof (intro conjI allI impI)
  show "take 2 (handleNewChat appId env s) =
           [SetIsLoading True,
            AddDoc (chatsCollectionPath appId u) (ChatData (js ''New Chat'') (nc_now env)) (nc_write env)]"
    by (simp add: handleNewChat_trace [OF u])
  show "length (handleNewChat appId env s) = 4"
    by (simp add: handleNewChat_trace [OF u])
  show "last (handleNewChat appId env s) = SetIsLoading False"
    by (simp add: handleNewChat_trace [OF u])
  show "filter isStoreWrite (handleNewChat appId env s) =
             [AddDoc (chatsCollectionPath appId u) (ChatData (js ''New Chat'') (nc_now env)) (nc_write env)]"
    by (simp add: handleNewChat_trace [OF u] split: outcome.splits)
  show "isLoading (run (handleNewChat appId env s) s) = False"
    by (simp add: handleNewChat_trace [OF u] run_Cons run_Nil)
next
  fix k :: nat and other
  assume "0 < k \<and> k < 4 \<and> SetIsLoading False \<notin> set other"
  then show "isLoading (run other (run (take k (handleNewChat appId env s)) s))"
    using newChat_in_flight [OF u] isLoading_run_keeps by blast
  then show "handleSendMessage rt appId senv (run other (run (take k (handleNewChat appId env s)) s))
      = ([], Resolved ())"
    by (rule handleSendMessage_busy)
next
  fix k :: nat and other
  assume "1 < k \<and> k < 5 \<and> SetIsLoading False \<notin> set other"
  then show "isLoading (run other (run (take k (onChatsSnapshot appId env s [])) s))"
    using autoCreate_in_flight [OF u] isLoading_run_keeps by blast
  then show "handleSendMessage rt appId senv (run other (run (take k (onChatsSnapshot appId env s [])) s))
                   = ([], Resolved ())"
    by (rule handleSendMessage_busy)
qed

text \<open>A push of the messages listener arrives while the creation waits for its write.\<close>

theorem newChat_shares_loading_flag_witness:
  "user demoState = Some demoUser
   \<and> sendAccepted demoState demoUser (js ''c1'')
   \<and> take 2 (handleNewChat defaultAppId createOk demoState) =
       [SetIsLoading True, AddDoc demoChatsPath (ChatData (js ''New Chat'') 7) (Resolved (js ''c2''))]
   \<and> SetIsLoading False \<notin> set [SetMessages (messages historyState)]
   \<and> isLoading (run [SetMessages (messages historyState)]
        (run (take 2 (handleNewChat defaultAppId createOk demoState)) demoState))
   \<and> handleSendMessage demoRuntime defaultAppId demoEnv
        (run [SetMessages (messages historyState)]
           (run (take 2 (handleNewChat defaultAppId createOk demoState)) demoState)) = ([], Resolved ())
   \<and> isLoading (run (handleNewChat defaultAppId createOk demoState) demoState) = False"
proof -
  note run = newChat_shares_loading_flag [OF demoState_sel(1), of defaultAppId createOk demoRuntime demoEnv]
  from run [THEN conjunct1] have a: "take 2 (handleNewChat defaultAppId createOk demoState) =
       [SetIsLoading True, AddDoc demoChatsPath (ChatData (js ''New Chat'') 7) (Resolved (js ''c2''))]"
    by (simp add: createOk_def demoChatsPath_def)
  have o: "SetIsLoading False \<notin> set [SetMessages (messages historyState)]" by simp
  have k: "(0::nat) < 2 \<and> (2::nat) < 4 \<and> SetIsLoading False \<notin> set [SetMessages (messages historyState)]"
    by simp
  from run have "\<forall>k other. 0 < k \<and> k < 4 \<and> SetIsLoading False \<notin> set other \<longrightarrow>
               isLoading (run other (run (take k (handleNewChat defaultAppId createOk demoState)) demoState))
               \<and> handleSendMessage demoRuntime defaultAppId demoEnv
                   (run other (run (take k (handleNewChat defaultAppId createOk demoState)) demoState))
                   = ([], Resolved ())"
    by blast
  with k have b: "isLoading (run [SetMessages (messages historyState)]
        (run (take 2 (handleNewChat defaultAppId createOk demoState)) demoState))
     \<and> handleSendMessage demoRuntime defaultAppId demoEnv
        (run [SetMessages (messages historyState)]
           (run (take 2 (handleNewChat defaultAppId createOk demoState)) demoState)) = ([], Resolved ())"
    by blast
  from run have c: "isLoading (run (handleNewChat defaultAppId createOk demoState) demoState) = False"
    by blast
  show ?thesis using demoState_sel(1) demo_accepted a o b c by (intro conjI) blast+
qed

section \<open>Two pipelines under way at once\<close>

lemma oneChat_accepted: "sendAccepted oneChat demoUser (js ''b'')"
  using demo_accepted by (simp add: sendAccepted_def oneChat_def) (simp add: js_def)

lemma oneChat_trim: "trim (input oneChat) = js ''hi''"
  using demo_trim by (simp add: oneChat_def)

lemma firstSend_eq:
  "firstSend =
     [SetInput [], SetIsLoading True,
      AddDoc (messagesCollectionPath defaultAppId demoUser (js ''b'')) (MessageData (JStr (js ''hi'')) User 1)
        (Resolved (js ''m1'')),
      Fetch apiUrl \<lparr>contents = [\<lparr>c_role = User, parts = [\<lparr>p_text = JStr (js ''hi'')\<rparr>]\<rparr>]\<rparr>
        (Resolved \<lparr>status = 500\<rparr>),
      ConsoleError,
      AddDoc (messagesCollectionPath defaultAppId demoUser (js ''b''))
        (MessageData (JStr (js ''Error: API call failed with status: 500'')) Model 3) (Resolved (js ''m3'')),
      SetIsLoading False]"
proof -
  have nok: "\<not> ok \<lparr>status = 500\<rparr>" by (simp add: ok_def)
  have m: "messages oneChat = []" by (simp add: oneChat_def demoState_def)
  show ?thesis
    unfolding firstSend_def
    by (simp add: handleSendMessage_accepted [OF oneChat_accepted] sendPipeline_trace demoEnv_fields
        tryBlock_not_ok [OF demoEnv_fields(2) nok] oneChat_trim m chatHistory_def userMessage_def
        errorMessage_def showNat_500)
       (simp add: js_def)
qed

lemma sendPending_fields:
  "user sendPending = Some demoUser" "activeChatId sendPending = Some (js ''b'')"
  "isLoading sendPending = True" "input sendPending = []" "chats sendPending = [chatB]"
  by (simp_all add: sendPending_def firstSend_eq run_Cons run_Nil oneChat_def demoState_def)

lemma autoCreate_eq:
  "autoCreate =
     [SetChats [], SetIsLoading True,
      AddDoc demoChatsPath (ChatData (js ''New Chat'') 7) (Resolved (js ''c2'')),
      SetActiveChatId (Some (js ''c2'')), SetIsLoading False]"
  by (simp add: autoCreate_def onChatsSnapshot_def handleNewChat_trace [OF sendPending_fields(1)]
      createOk_def demoChatsPath_def)


lemma again_trim: "trim (js ''again'') = js ''again''"
  by (simp add: trim_def js_def isWhiteSpace_def)


lemma creationPending_fields:
  "user creationPending = Some demoUser" "activeChatId creationPending = Some (js ''b'')"
  "isLoading creationPending = True"
  by (simp_all add: creationPending_def autoCreate_eq run_Cons run_Nil sendPending_fields)

lemma sentMeanwhile_accepted: "sendAccepted sentMeanwhile demoUser (js ''b'')"
  by (simp add: sendAccepted_def sentMeanwhile_def firstSend_eq run_Cons run_Nil creationPending_fields)
     (simp add: trim_def js_def isWhiteSpace_def)

text \<open>
  Claim C10 as stated fails in \<open>sentMeanwhile\<close>. The creation waits for its \<^verbatim>\<open>addDoc\<close>; the
  first send has reached its \<^verbatim>\<open>finally\<close> and cleared the flag; the call of
  \<^verbatim>\<open>handleSendMessage\<close> that follows passes the guard, although the creation is in flight.
\<close>

theorem newChat_shares_loading_flag_counterexample:
  "take 3 autoCreate =
     [SetChats [], SetIsLoading True,
      AddDoc demoChatsPath (ChatData (js ''New Chat'') 7) (Resolved (js ''c2''))]
   \<and> drop 3 autoCreate = [SetActiveChatId (Some (js ''c2'')), SetIsLoading False]
   \<and> isLoading creationPending = True
   \<and> drop 4 firstSend =
     [ConsoleError,
      AddDoc (messagesCollectionPath defaultAppId demoUser (js ''b''))
        (MessageData (JStr (js ''Error: API call failed with status: 500'')) Model 3) (Resolved (js ''m3'')),
      SetIsLoading False]
   \<and> isLoading sentMeanwhile = False
   \<and> take 3 (fst (handleSendMessage demoRuntime defaultAppId demoEnv sentMeanwhile)) =
     [SetInput [], SetIsLoading True,
      AddDoc (messagesCollectionPath defaultAppId demoUser (js ''b''))
        (MessageData (JStr (js ''again'')) User 1) (Resolved (js ''m1''))]"
proof -
  have a: "take 3 autoCreate =
     [SetChats [], SetIsLoading True,
      AddDoc demoChatsPath (ChatData (js ''New Chat'') 7) (Resolved (js ''c2''))]"
    by (simp add: autoCreate_eq)
  have b: "drop 3 autoCreate = [SetActiveChatId (Some (js ''c2'')), SetIsLoading False]"
    by (simp add: autoCreate_eq)
  have c: "drop 4 firstSend =
     [ConsoleError,
      AddDoc (messagesCollectionPath defaultAppId demoUser (js ''b''))
        (MessageData (JStr (js ''Error: API call failed with status: 500'')) Model 3) (Resolved (js ''m3'')),
      SetIsLoading False]"
    by (simp add: firstSend_eq)
  have d: "isLoading sentMeanwhile = False"
    using sentMeanwhile_accepted by (simp add: sendAccepted_def)
  have i: "input sentMeanwhile = js ''again''"
    by (simp add: sentMeanwhile_def)
  have e: "take 3 (fst (handleSendMessage demoRuntime defaultAppId demoEnv sentMeanwhile)) =
     [SetInput [], SetIsLoading True,
      AddDoc (messagesCollectionPath defaultAppId demoUser (js ''b''))
        (MessageData (JStr (js ''again'')) User 1) (Resolved (js ''m1''))]"
    by (simp add: handleSendMessage_accepted [OF sentMeanwhile_accepted] sendPipeline_trace
        demoEnv_fields userMessage_def i again_trim)
  show ?thesis using a b creationPending_fields(3) c d e by (intro conjI)
qed


end
